theory Spec2Isabelle
  imports Complex_Main
begin

section \<open>Python values and exceptions\<close>

text \<open>
  The exceptions that the validators, repositories and services of \<^verbatim>\<open>real_estate\<close> can
  raise or meet. \<open>ValueError\<close> carries its message. \<open>DoesNotExist\<close> and
  \<open>MultipleObjectsReturned\<close> are the two failures of the ORM's \<^verbatim>\<open>objects.get\<close>,
  \<open>IntegrityError\<close> is the store refusing a row that breaks a unique constraint,
  \<open>KeyError\<close> is a read of a missing dictionary key.
\<close>

datatype error =
    TypeError
  | ValueError string
  | KeyError
  | DoesNotExist
  | MultipleObjectsReturned
  | IntegrityError
  | UnidadNoDisponibleError
  | ClienteNoValidoError

text \<open>
  A calendar date as \<^verbatim>\<open>datetime.date\<close> holds it; Python orders dates by year, then
  month, then day.
\<close>

datatype date = Date (year: nat) (month: nat) (day: nat)

definition date_gt :: "date \<Rightarrow> date \<Rightarrow> bool" where
  "date_gt a b =
     (year a > year b \<or> (year a = year b \<and>
        (month a > month b \<or> (month a = month b \<and> day a > day b))))"

text \<open>
  The values an input mapping can hold: \<^verbatim>\<open>None\<close>, a bool, an int, a finite float (by its
  exact value), a string, a native date, a UUID (by its integer value). A string is a list
  of code points below 256, one \<open>char\<close> each, so \<open>length\<close> is Python's \<^verbatim>\<open>len\<close>.
  Lists and dictionaries as values are outside the model.
\<close>

datatype pyval =
    PNone
  | PBool bool
  | PInt int
  | PFloat rat
  | PStr string
  | PDate date
  | PUuid nat

type_synonym pydict = "string \<Rightarrow> pyval option"

text \<open>\<^verbatim>\<open>data.get(key)\<close>: the value, or \<^verbatim>\<open>None\<close> for a missing key.\<close>

definition dict_get :: "pydict \<Rightarrow> string \<Rightarrow> pyval" where
  "dict_get d k = (case d k of None \<Rightarrow> PNone | Some v \<Rightarrow> v)"

text \<open>Python's truth value, as \<^verbatim>\<open>if x\<close> and \<^verbatim>\<open>not x\<close> test it.\<close>

fun truthy :: "pyval \<Rightarrow> bool" where
  "truthy PNone = False"
| "truthy (PBool b) = b"
| "truthy (PInt i) = (i \<noteq> 0)"
| "truthy (PFloat r) = (r \<noteq> 0)"
| "truthy (PStr s) = (s \<noteq> [])"
| "truthy (PDate d) = True"
| "truthy (PUuid u) = True"

text \<open>\<^verbatim>\<open>len(x)\<close>: defined on strings, a \<open>TypeError\<close> on every other value of the model.\<close>

fun py_len :: "pyval \<Rightarrow> error + nat" where
  "py_len (PStr s) = Inr (length s)"
| "py_len v = Inl TypeError"

text \<open>\<^verbatim>\<open>x in xs\<close> for a list of strings: equality with an element; a non-string equals none.\<close>

fun py_in :: "pyval \<Rightarrow> string list \<Rightarrow> bool" where
  "py_in (PStr s) xs = (s \<in> set xs)"
| "py_in v xs = False"

text \<open>The numeric value of a bool, int or float; no other value is a number.\<close>

fun num_val :: "pyval \<Rightarrow> rat option" where
  "num_val (PBool b) = Some (if b then 1 else 0)"
| "num_val (PInt i) = Some (of_int i)"
| "num_val (PFloat r) = Some r"
| "num_val v = None"

text \<open>\<^verbatim>\<open>x <= 0\<close>: numbers compare by value, anything else against an int is a \<open>TypeError\<close>.\<close>

definition py_le_zero :: "pyval \<Rightarrow> error + bool" where
  "py_le_zero v = (case num_val v of None \<Rightarrow> Inl TypeError | Some r \<Rightarrow> Inr (r \<le> 0))"

text \<open>Strings order lexicographically by code point.\<close>

fun str_gt :: "string \<Rightarrow> string \<Rightarrow> bool" where
  "str_gt [] t = False"
| "str_gt (a # s) [] = True"
| "str_gt (a # s) (b # t) =
     ((of_char a :: nat) > of_char b \<or> (a = b \<and> str_gt s t))"

text \<open>
  \<^verbatim>\<open>x > y\<close>: two numbers, two dates, two strings or two UUIDs compare; every other pair
  of values of the model is a \<open>TypeError\<close>.
\<close>

fun py_gt :: "pyval \<Rightarrow> pyval \<Rightarrow> error + bool" where
  "py_gt (PDate a) (PDate b) = Inr (date_gt a b)"
| "py_gt (PStr a) (PStr b) = Inr (str_gt a b)"
| "py_gt (PUuid a) (PUuid b) = Inr (a > b)"
| "py_gt x y =
     (case (num_val x, num_val y) of
        (Some a, Some b) \<Rightarrow> Inr (a > b)
      | _ \<Rightarrow> Inl TypeError)"

section \<open>Regular expressions\<close>

text \<open>
  The patterns of the validators use character classes, sequence, bounded and unbounded
  repetition, an optional group and the anchors \<^verbatim>\<open>^\<close> and \<^verbatim>\<open>$\<close>. On such patterns
  \<^verbatim>\<open>re.match\<close> finds a match exactly when the subject is in the pattern's language, which
  the derivative matcher below decides. \<open>Cls cs\<close> is a class, given by its characters.
\<close>

datatype regex =
    Nul
  | Eps
  | Cls string
  | Seq regex regex
  | Alt regex regex
  | Star regex

fun nullable :: "regex \<Rightarrow> bool" where
  "nullable Nul = False"
| "nullable Eps = True"
| "nullable (Cls cs) = False"
| "nullable (Seq r s) = (nullable r \<and> nullable s)"
| "nullable (Alt r s) = (nullable r \<or> nullable s)"
| "nullable (Star r) = True"

fun deriv :: "char \<Rightarrow> regex \<Rightarrow> regex" where
  "deriv c Nul = Nul"
| "deriv c Eps = Nul"
| "deriv c (Cls cs) = (if c \<in> set cs then Eps else Nul)"
| "deriv c (Seq r s) =
     (if nullable r then Alt (Seq (deriv c r) s) (deriv c s) else Seq (deriv c r) s)"
| "deriv c (Alt r s) = Alt (deriv c r) (deriv c s)"
| "deriv c (Star r) = Seq (deriv c r) (Star r)"

definition matches :: "regex \<Rightarrow> string \<Rightarrow> bool" where
  "matches r s = nullable (fold deriv s r)"

text \<open>\<^verbatim>\<open>r{n}\<close>, \<^verbatim>\<open>r{0,n}\<close>, \<^verbatim>\<open>r{n,m}\<close>, \<^verbatim>\<open>r+\<close>, \<^verbatim>\<open>r{n,}\<close> and \<^verbatim>\<open>(r)?\<close>.\<close>

fun rep_exactly :: "nat \<Rightarrow> regex \<Rightarrow> regex" where
  "rep_exactly 0 r = Eps"
| "rep_exactly (Suc n) r = Seq r (rep_exactly n r)"

fun rep_upto :: "nat \<Rightarrow> regex \<Rightarrow> regex" where
  "rep_upto 0 r = Eps"
| "rep_upto (Suc n) r = Alt Eps (Seq r (rep_upto n r))"

definition rep_between :: "nat \<Rightarrow> nat \<Rightarrow> regex \<Rightarrow> regex" where
  "rep_between n m r = Seq (rep_exactly n r) (rep_upto (m - n) r)"

definition rep_plus :: "regex \<Rightarrow> regex" where
  "rep_plus r = Seq r (Star r)"

definition rep_at_least :: "nat \<Rightarrow> regex \<Rightarrow> regex" where
  "rep_at_least n r = Seq (rep_exactly n r) (Star r)"

definition opt :: "regex \<Rightarrow> regex" where
  "opt r = Alt Eps r"

text \<open>
  \<^verbatim>\<open>$\<close> without the MULTILINE flag matches at the end of the subject and also just
  before a newline that ends the subject.
\<close>

definition dollar :: regex where
  "dollar = Alt Eps (Cls [CHR 0x0A])"

definition digits :: string where
  "digits = ''0123456789''"

definition lowers :: string where
  "lowers = ''abcdefghijklmnopqrstuvwxyz''"

definition uppers :: string where
  "uppers = ''ABCDEFGHIJKLMNOPQRSTUVWXYZ''"

text \<open>
  \<^verbatim>\<open>re.match(pattern, x)\<close> with a string pattern: a \<open>TypeError\<close> unless \<open>x\<close> is a string.
  \<^verbatim>\<open>\d\<close> is the decimal digits, which below code point 256 are \<^verbatim>\<open>0\<close> to \<^verbatim>\<open>9\<close>.
\<close>

fun re_match :: "regex \<Rightarrow> pyval \<Rightarrow> error + bool" where
  "re_match r (PStr s) = Inr (matches r s)"
| "re_match r v = Inl TypeError"

section \<open>Library functions used by the validators\<close>

text \<open>
  \<^verbatim>\<open>str.isupper\<close>, \<^verbatim>\<open>str.islower\<close> and \<^verbatim>\<open>str.isdigit\<close> on one character, for the code
  points below 256: the Latin letters, the accented letters of Latin-1 (without the
  multiplication and division signs), the ordinal indicators and the micro sign as lower
  case, and the superscripts one, two and three as digits.
\<close>

definition py_isupper :: "char \<Rightarrow> bool" where
  "py_isupper c =
     (let n = (of_char c :: nat)
      in (65 \<le> n \<and> n \<le> 90) \<or> (192 \<le> n \<and> n \<le> 222 \<and> n \<noteq> 215))"

definition py_islower :: "char \<Rightarrow> bool" where
  "py_islower c =
     (let n = (of_char c :: nat)
      in (97 \<le> n \<and> n \<le> 122) \<or> n = 170 \<or> n = 181 \<or> n = 186
         \<or> (223 \<le> n \<and> n \<le> 255 \<and> n \<noteq> 247))"

definition py_isdigit :: "char \<Rightarrow> bool" where
  "py_isdigit c =
     (let n = (of_char c :: nat)
      in (48 \<le> n \<and> n \<le> 57) \<or> n = 178 \<or> n = 179 \<or> n = 185)"

text \<open>\<^verbatim>\<open>sep.join(xs)\<close>.\<close>

fun join :: "string \<Rightarrow> string list \<Rightarrow> string" where
  "join sep [] = []"
| "join sep [x] = x"
| "join sep (x # y # ys) = x @ sep @ join sep (y # ys)"

text \<open>
  \<^verbatim>\<open>date.fromisoformat\<close> on the form \<^verbatim>\<open>YYYY-MM-DD\<close>, the one form every Python version
  with this function reads (3.11 and later read further ISO 8601 forms). \<open>None\<close> stands
  for the \<open>ValueError\<close>. The validator below takes the parser as a parameter, so that its
  theorems hold for every version's parser; this one serves the concrete inputs.
\<close>

definition digit_value :: "char \<Rightarrow> nat" where
  "digit_value c = of_char c - 48"

definition number_of :: "string \<Rightarrow> nat" where
  "number_of s = foldl (\<lambda>n c. 10 * n + digit_value c) 0 s"

definition is_leap :: "nat \<Rightarrow> bool" where
  "is_leap y = (y mod 4 = 0 \<and> (y mod 100 \<noteq> 0 \<or> y mod 400 = 0))"

definition days_in_month :: "nat \<Rightarrow> nat \<Rightarrow> nat" where
  "days_in_month y m =
     (if m = 2 then (if is_leap y then 29 else 28)
      else if m \<in> {4, 6, 9, 11} then 30 else 31)"

definition date_fromisoformat :: "string \<Rightarrow> date option" where
  "date_fromisoformat s =
     (let ys = take 4 s; ms = take 2 (drop 5 s); ds = take 2 (drop 8 s);
          y = number_of ys; m = number_of ms; d = number_of ds
      in if length s = 10 \<and> s ! 4 = CHR ''-'' \<and> s ! 7 = CHR ''-''
            \<and> (\<forall>c \<in> set (ys @ ms @ ds). c \<in> set digits)
            \<and> 1 \<le> y \<and> 1 \<le> m \<and> m \<le> 12 \<and> 1 \<le> d \<and> d \<le> days_in_month y m
         then Some (Date y m d) else None)"

section \<open>Validators\<close>

subsection \<open>BaseValidator\<close>

datatype validation_error = ValidationError (field: string) (message: string)

text \<open>
  The three subclasses of \<^verbatim>\<open>BaseValidator\<close>. A validator object holds the input mapping
  and the error list; its \<^verbatim>\<open>instance\<close> attribute is stored and never read.
\<close>

datatype vkind = UsuarioValidator | ProyectoValidator | UnidadValidator

record validator =
  kind :: vkind
  data :: pydict
  errors :: "validation_error list"

definition add_error :: "string \<Rightarrow> string \<Rightarrow> validator \<Rightarrow> validator" where
  "add_error f m v = v\<lparr>errors := errors v @ [ValidationError f m]\<rparr>"

text \<open>
  A check method returns nothing and may raise: its outcome is the exception raised, if
  any, and the validator as the method left it.
\<close>

type_synonym check = "validator \<Rightarrow> error option \<times> validator"

text \<open>Calling check methods one after the other; an exception ends the sequence.\<close>

fun run_checks :: "check list \<Rightarrow> check" where
  "run_checks [] v = (None, v)"
| "run_checks (c # cs) v =
     (case c v of (Some e, v') \<Rightarrow> (Some e, v') | (None, v') \<Rightarrow> run_checks cs v')"

abbreviation a_acute :: char where "a_acute \<equiv> CHR 0xE1"
abbreviation e_acute :: char where "e_acute \<equiv> CHR 0xE9"
abbreviation o_acute :: char where "o_acute \<equiv> CHR 0xF3"
abbreviation u_acute :: char where "u_acute \<equiv> CHR 0xFA"
abbreviation n_tilde :: char where "n_tilde \<equiv> CHR 0xF1"

subsection \<open>UsuarioValidator\<close>

text \<open>\<^verbatim>\<open>r'^\d{1,8}-[\dkK]$'\<close>\<close>

definition rut_pattern :: regex where
  "rut_pattern =
     Seq (rep_between 1 8 (Cls digits)) (Seq (Cls ''-'') (Seq (Cls (digits @ ''kK'')) dollar))"

definition is_valid_rut_format :: "pyval \<Rightarrow> error + bool" where
  "is_valid_rut_format rut = re_match rut_pattern rut"

definition validate_rut :: check where
  "validate_rut v =
     (let rut = dict_get (data v) ''rut''
      in if \<not> truthy rut then (None, add_error ''rut'' ''El RUT es obligatorio'' v)
         else (case is_valid_rut_format rut of
                 Inl e \<Rightarrow> (Some e, v)
               | Inr ok \<Rightarrow>
                   if \<not> ok
                   then (None, add_error ''rut''
                     (''El formato del RUT no es v'' @ a_acute # ''lido (debe ser 12345678-9)'') v)
                   else (None, v)))"

text \<open>\<^verbatim>\<open>r'^[a-zA-Z0-9._%+-]+@[a-zA-Z0-9.-]+\.[a-zA-Z]{2,}$'\<close>\<close>

definition email_pattern :: regex where
  "email_pattern =
     Seq (rep_plus (Cls (lowers @ uppers @ digits @ ''._%+-'')))
      (Seq (Cls ''@'')
        (Seq (rep_plus (Cls (lowers @ uppers @ digits @ ''.-'')))
          (Seq (Cls ''.'') (Seq (rep_at_least 2 (Cls (lowers @ uppers))) dollar))))"

definition is_valid_email :: "pyval \<Rightarrow> error + bool" where
  "is_valid_email email = re_match email_pattern email"

definition validate_email :: check where
  "validate_email v =
     (let email = dict_get (data v) ''email''
      in if \<not> truthy email then (None, add_error ''email'' ''El email es obligatorio'' v)
         else (case is_valid_email email of
                 Inl e \<Rightarrow> (Some e, v)
               | Inr ok \<Rightarrow>
                   if \<not> ok
                   then (None, add_error ''email''
                     (''El formato del email no es v'' @ a_acute # ''lido'') v)
                   else (None, v)))"

definition validate_nombres :: check where
  "validate_nombres v =
     (let first_name = dict_get (data v) ''first_name'';
          last_name = dict_get (data v) ''last_name''
      in case (if \<not> truthy first_name
               then (None, add_error ''first_name'' ''El nombre es obligatorio'' v)
               else (case py_len first_name of
                       Inl e \<Rightarrow> (Some e, v)
                     | Inr n \<Rightarrow>
                         if n < 2
                         then (None, add_error ''first_name''
                           ''El nombre debe tener al menos 2 caracteres'' v)
                         else (None, v)))
         of (Some e, v1) \<Rightarrow> (Some e, v1)
          | (None, v1) \<Rightarrow>
              if \<not> truthy last_name
              then (None, add_error ''last_name'' ''El apellido es obligatorio'' v1)
              else (case py_len last_name of
                      Inl e \<Rightarrow> (Some e, v1)
                    | Inr n \<Rightarrow>
                        if n < 2
                        then (None, add_error ''last_name''
                          ''El apellido debe tener al menos 2 caracteres'' v1)
                        else (None, v1)))"

text \<open>The three generator expressions iterate over the password: a \<open>TypeError\<close> unless it is a string.\<close>

fun is_strong_password :: "pyval \<Rightarrow> error + bool" where
  "is_strong_password (PStr p) =
     Inr (list_ex py_isupper p \<and> list_ex py_islower p \<and> list_ex py_isdigit p)"
| "is_strong_password v = Inl TypeError"

definition validate_password :: check where
  "validate_password v =
     (let password = dict_get (data v) ''password''
      in if truthy password
         then (case py_len password of
                 Inl e \<Rightarrow> (Some e, v)
               | Inr n \<Rightarrow>
                   if n < 8
                   then (None, add_error ''password''
                     (''La contrase'' @ n_tilde # ''a debe tener al menos 8 caracteres'') v)
                   else (case is_strong_password password of
                           Inl e \<Rightarrow> (Some e, v)
                         | Inr ok \<Rightarrow>
                             if \<not> ok
                             then (None, add_error ''password''
                               (''La contrase'' @ n_tilde # ''a debe contener al menos una letra may''
                                 @ u_acute # ''scula, una min'' @ u_acute # ''scula y un n''
                                 @ u_acute # ''mero'') v)
                             else (None, v)))
         else (None, v))"

definition roles_validos :: "string list" where
  "roles_validos = [''Administrador'', ''Cliente'']"

definition validate_role :: check where
  "validate_role v =
     (let role = dict_get (data v) ''role''
      in if truthy role \<and> \<not> py_in role roles_validos
         then (None, add_error ''role''
           (''El rol debe ser uno de: '' @ join '', '' roles_validos) v)
         else (None, v))"

text \<open>\<^verbatim>\<open>r'^(\+\d{1,3})?[0-9]{8,12}$'\<close>\<close>

definition phone_pattern :: regex where
  "phone_pattern =
     Seq (opt (Seq (Cls ''+'') (rep_between 1 3 (Cls digits))))
      (Seq (rep_between 8 12 (Cls digits)) dollar)"

definition is_valid_phone :: "pyval \<Rightarrow> error + bool" where
  "is_valid_phone phone = re_match phone_pattern phone"

definition validate_phone :: check where
  "validate_phone v =
     (let phone = dict_get (data v) ''phone''
      in if truthy phone
         then (case is_valid_phone phone of
                 Inl e \<Rightarrow> (Some e, v)
               | Inr ok \<Rightarrow>
                   if \<not> ok
                   then (None, add_error ''phone''
                     (''El formato del tel'' @ e_acute # ''fono no es v'' @ a_acute # ''lido'') v)
                   else (None, v))
         else (None, v))"

definition usuario_validate :: check where
  "usuario_validate =
     run_checks [validate_rut, validate_email, validate_nombres, validate_password,
                 validate_role, validate_phone]"

subsection \<open>ProyectoValidator\<close>

definition validate_nombre :: check where
  "validate_nombre v =
     (let nombre = dict_get (data v) ''nombre''
      in if \<not> truthy nombre then (None, add_error ''nombre'' ''El nombre es obligatorio'' v)
         else (case py_len nombre of
                 Inl e \<Rightarrow> (Some e, v)
               | Inr n \<Rightarrow>
                   if n < 3
                   then (None, add_error ''nombre''
                     ''El nombre debe tener al menos 3 caracteres'' v)
                   else if n > 100
                   then (None, add_error ''nombre''
                     (''El nombre no puede tener m'' @ a_acute # ''s de 100 caracteres'') v)
                   else (None, v)))"

definition validate_ubicacion :: check where
  "validate_ubicacion v =
     (let ubicacion = dict_get (data v) ''ubicacion''
      in if \<not> truthy ubicacion
         then (None, add_error ''ubicacion''
           (''La ubicaci'' @ o_acute # ''n es obligatoria'') v)
         else (case py_len ubicacion of
                 Inl e \<Rightarrow> (Some e, v)
               | Inr n \<Rightarrow>
                   if n < 5
                   then (None, add_error ''ubicacion''
                     (''La ubicaci'' @ o_acute # ''n debe tener al menos 5 caracteres'') v)
                   else if n > 200
                   then (None, add_error ''ubicacion''
                     (''La ubicaci'' @ o_acute # ''n no puede tener m'' @ a_acute
                       # ''s de 200 caracteres'') v)
                   else (None, v)))"

text \<open>
  The conversion of one date field: a string goes through \<^verbatim>\<open>date.fromisoformat\<close>, whose
  \<open>ValueError\<close> is caught (\<open>None\<close> here); any other value is kept as it is.
\<close>

fun to_date :: "(string \<Rightarrow> date option) \<Rightarrow> pyval \<Rightarrow> pyval option" where
  "to_date fromisoformat (PStr s) =
     (case fromisoformat s of None \<Rightarrow> None | Some d \<Rightarrow> Some (PDate d))"
| "to_date fromisoformat x = Some x"

definition msg_formato_fecha :: string where
  "msg_formato_fecha = ''Formato de fecha inv'' @ a_acute # ''lido''"

definition msg_fecha_posterior :: string where
  "msg_fecha_posterior =
     ''La fecha de finalizaci'' @ o_acute
       # ''n debe ser posterior a la fecha de inicio''"

definition validate_fechas :: "(string \<Rightarrow> date option) \<Rightarrow> check" where
  "validate_fechas fromisoformat v =
     (let fecha_inicio = dict_get (data v) ''fecha_inicio'';
          fecha_finalizacion = dict_get (data v) ''fecha_finalizacion''
      in if truthy fecha_inicio \<and> truthy fecha_finalizacion
         then (case to_date fromisoformat fecha_inicio of
                 None \<Rightarrow> (None, add_error ''fecha_inicio'' msg_formato_fecha v)
               | Some inicio \<Rightarrow>
                   (case to_date fromisoformat fecha_finalizacion of
                      None \<Rightarrow> (None, add_error ''fecha_finalizacion'' msg_formato_fecha v)
                    | Some finalizacion \<Rightarrow>
                        (case py_gt inicio finalizacion of
                           Inl e \<Rightarrow> (Some e, v)
                         | Inr later \<Rightarrow>
                             if later
                             then (None, add_error ''fecha_finalizacion'' msg_fecha_posterior v)
                             else (None, v))))
         else (None, v))"

definition estados_proyecto_validos :: "string list" where
  "estados_proyecto_validos =
     [''Planificaci'' @ o_acute # ''n'', ''En Construcci'' @ o_acute # ''n'',
      ''Terminado'', ''Cancelado'']"

definition validate_estado_proyecto :: check where
  "validate_estado_proyecto v =
     (let estado = dict_get (data v) ''estado''
      in if truthy estado \<and> \<not> py_in estado estados_proyecto_validos
         then (None, add_error ''estado''
           (''El estado debe ser uno de: '' @ join '', '' estados_proyecto_validos) v)
         else (None, v))"

definition validate_codigo :: check where
  "validate_codigo v =
     (let codigo = dict_get (data v) ''codigo''
      in if truthy codigo
         then (case py_len codigo of
                 Inl e \<Rightarrow> (Some e, v)
               | Inr n \<Rightarrow>
                   if n < 5
                   then (None, add_error ''codigo''
                     (''El c'' @ o_acute # ''digo debe tener al menos 5 caracteres'') v)
                   else if n > 20
                   then (None, add_error ''codigo''
                     (''El c'' @ o_acute # ''digo no puede tener m'' @ a_acute
                       # ''s de 20 caracteres'') v)
                   else (None, v))
         else (None, v))"

definition proyecto_validate :: "(string \<Rightarrow> date option) \<Rightarrow> check" where
  "proyecto_validate fromisoformat =
     run_checks [validate_nombre, validate_ubicacion, validate_fechas fromisoformat,
                 validate_estado_proyecto, validate_codigo]"

subsection \<open>UnidadValidator\<close>

definition validate_proyecto :: check where
  "validate_proyecto v =
     (let proyecto_id = dict_get (data v) ''proyecto_id''
      in if \<not> truthy proyecto_id
         then (None, add_error ''proyecto_id'' ''El proyecto es obligatorio'' v)
         else (None, v))"

definition validate_numero_unidad :: check where
  "validate_numero_unidad v =
     (let numero_unidad = dict_get (data v) ''numero_unidad''
      in if \<not> truthy numero_unidad
         then (None, add_error ''numero_unidad''
           (''El n'' @ u_acute # ''mero de unidad es obligatorio'') v)
         else (case py_len numero_unidad of
                 Inl e \<Rightarrow> (Some e, v)
               | Inr n \<Rightarrow>
                   if n > 20
                   then (None, add_error ''numero_unidad''
                     (''El n'' @ u_acute # ''mero de unidad no puede tener m'' @ a_acute
                       # ''s de 20 caracteres'') v)
                   else (None, v)))"

definition tipos_validos :: "string list" where
  "tipos_validos =
     [''Departamento'', ''Casa'', ''Oficina'', ''Local Comercial'', ''Terreno'', ''Bodega'',
      ''Estacionamiento'']"

definition validate_tipo_unidad :: check where
  "validate_tipo_unidad v =
     (let tipo_unidad = dict_get (data v) ''tipo_unidad''
      in if \<not> truthy tipo_unidad
         then (None, add_error ''tipo_unidad'' ''El tipo de unidad es obligatorio'' v)
         else if \<not> py_in tipo_unidad tipos_validos
         then (None, add_error ''tipo_unidad''
           (''El tipo de unidad debe ser uno de: '' @ join '', '' tipos_validos) v)
         else (None, v))"

definition validate_metraje :: check where
  "validate_metraje v =
     (let metraje = dict_get (data v) ''metraje_cuadrado''
      in if metraje = PNone
         then (None, add_error ''metraje_cuadrado'' ''El metraje cuadrado es obligatorio'' v)
         else (case py_le_zero metraje of
                 Inl e \<Rightarrow> (Some e, v)
               | Inr le \<Rightarrow>
                   if le
                   then (None, add_error ''metraje_cuadrado''
                     ''El metraje cuadrado debe ser mayor que cero'' v)
                   else (None, v)))"

definition validate_precio :: check where
  "validate_precio v =
     (let precio = dict_get (data v) ''precio_venta''
      in if precio = PNone
         then (None, add_error ''precio_venta'' ''El precio de venta es obligatorio'' v)
         else (case py_le_zero precio of
                 Inl e \<Rightarrow> (Some e, v)
               | Inr le \<Rightarrow>
                   if le
                   then (None, add_error ''precio_venta''
                     ''El precio de venta debe ser mayor que cero'' v)
                   else (None, v)))"

definition estados_unidad_validos :: "string list" where
  "estados_unidad_validos = [''Disponible'', ''Reservado'', ''Vendido'', ''No Disponible'']"

definition validate_estado_unidad :: check where
  "validate_estado_unidad v =
     (let estado = dict_get (data v) ''estado''
      in if \<not> truthy estado
         then (None, add_error ''estado'' ''El estado es obligatorio'' v)
         else if \<not> py_in estado estados_unidad_validos
         then (None, add_error ''estado''
           (''El estado debe ser uno de: '' @ join '', '' estados_unidad_validos) v)
         else (None, v))"

definition unidad_validate :: check where
  "unidad_validate =
     run_checks [validate_proyecto, validate_numero_unidad, validate_tipo_unidad,
                 validate_metraje, validate_precio, validate_estado_unidad]"

subsection \<open>The public methods of BaseValidator\<close>

text \<open>
  The abstract method \<^verbatim>\<open>_validate\<close>, dispatched on the class of the validator. The
  parser \<open>fromisoformat\<close> is the \<^verbatim>\<open>date.fromisoformat\<close> of the running Python.
\<close>

definition validate :: "(string \<Rightarrow> date option) \<Rightarrow> check" where
  "validate fromisoformat v =
     (case kind v of
        UsuarioValidator \<Rightarrow> usuario_validate v
      | ProyectoValidator \<Rightarrow> proyecto_validate fromisoformat v
      | UnidadValidator \<Rightarrow> unidad_validate v)"

text \<open>
  \<^verbatim>\<open>is_valid\<close>: reset the error list, run \<^verbatim>\<open>_validate\<close>, return whether the list is
  empty. The result is the value returned or the exception raised, with the validator
  object as the call leaves it.
\<close>

definition is_valid :: "(string \<Rightarrow> date option) \<Rightarrow> validator \<Rightarrow> (error + bool) \<times> validator" where
  "is_valid fromisoformat v =
     (case validate fromisoformat (v\<lparr>errors := []\<rparr>) of
        (Some e, v') \<Rightarrow> (Inl e, v')
      | (None, v') \<Rightarrow> (Inr (length (errors v') = 0), v'))"

definition get_errors :: "validator \<Rightarrow> validation_error list" where
  "get_errors v = errors v"

text \<open>
  \<^verbatim>\<open>get_error_dict\<close>: the loop over the error list, from the empty dictionary. A field
  seen for the first time gets the empty list, then the message is appended to the
  field's list.
\<close>

definition error_dict_step ::
  "(string \<Rightarrow> string list option) \<Rightarrow> validation_error \<Rightarrow> (string \<Rightarrow> string list option)" where
  "error_dict_step d e =
     (let d1 = (if d (field e) = None then d(field e \<mapsto> []) else d)
      in d1(field e \<mapsto> (case d1 (field e) of None \<Rightarrow> [] | Some ms \<Rightarrow> ms) @ [message e]))"

definition get_error_dict :: "validator \<Rightarrow> (string \<Rightarrow> string list option)" where
  "get_error_dict v = foldl error_dict_step Map.empty (errors v)"

text \<open>Calling \<^verbatim>\<open>is_valid\<close> \<open>n + 1\<close> times in a row on one validator object: the last call's result.\<close>

fun is_valid_repeated ::
  "(string \<Rightarrow> date option) \<Rightarrow> nat \<Rightarrow> validator \<Rightarrow> (error + bool) \<times> validator" where
  "is_valid_repeated fromisoformat 0 v = is_valid fromisoformat v"
| "is_valid_repeated fromisoformat (Suc n) v =
     is_valid_repeated fromisoformat n (snd (is_valid fromisoformat v))"

section \<open>The persisted store\<close>

text \<open>
  Primary keys are UUIDs, here by their integer value. A table is the list of its rows.
  Of the columns of \<^verbatim>\<open>models.py\<close> the timestamps and the flags that
  \<^verbatim>\<open>AbstractUser\<close> adds are left out: no service method below reads or writes them.
\<close>

type_synonym ident = nat

record usuario =
  usr_id :: ident
  usr_rut :: string
  usr_email :: string
  usr_username :: string
  usr_first_name :: string
  usr_last_name :: string
  usr_role :: string
  usr_phone :: "string option"
  usr_password :: string

record unidad =
  und_id :: ident
  und_proyecto_id :: ident
  und_numero_unidad :: string
  und_tipo_unidad :: string
  und_metraje_cuadrado :: rat
  und_precio_venta :: rat
  und_estado :: string
  und_cliente_id :: "ident option"

record db =
  usuarios :: "usuario list"
  unidades :: "unidad list"

text \<open>
  The result of a method that reads or writes the store: the value returned or the
  exception raised, and the store as the call leaves it.
\<close>

type_synonym 'a outcome = "(error + 'a) \<times> db"

text \<open>
  \<^verbatim>\<open>Model.objects.get(...)\<close>: the one row that satisfies the condition;
  \<open>DoesNotExist\<close> when there is none, \<open>MultipleObjectsReturned\<close> when there are several.
\<close>

definition objects_get :: "('a \<Rightarrow> bool) \<Rightarrow> 'a list \<Rightarrow> error + 'a" where
  "objects_get p rows =
     (case filter p rows of
        [] \<Rightarrow> Inl DoesNotExist
      | [x] \<Rightarrow> Inr x
      | x # y # zs \<Rightarrow> Inl MultipleObjectsReturned)"

text \<open>\<^verbatim>\<open>try: return ... except Model.DoesNotExist: return None\<close>\<close>

fun except_does_not_exist :: "error + 'a \<Rightarrow> error + 'a option" where
  "except_does_not_exist (Inr x) = Inr (Some x)"
| "except_does_not_exist (Inl DoesNotExist) = Inr None"
| "except_does_not_exist (Inl e) = Inl e"

text \<open>
  The constraints that \<^verbatim>\<open>models.py\<close> declares, checked by the store when a row is
  written. Unique: the primary keys, \<^verbatim>\<open>rut\<close>, \<^verbatim>\<open>email\<close> and \<^verbatim>\<open>username\<close> of a
  user, and the pair of project and unit number of a unit; a row conflicts with a table
  when a row with another primary key holds one of its unique values. Foreign key: the
  client of a unit is null or the primary key of a stored user. A write that breaks a
  constraint raises \<open>IntegrityError\<close> and leaves the store as it was. Column lengths are
  left to the backend; the project table is not modelled, and no method below changes
  the project of a unit.
\<close>

definition usuario_conflict :: "usuario \<Rightarrow> usuario list \<Rightarrow> bool" where
  "usuario_conflict u rows =
     (\<exists>r \<in> set rows. usr_id r \<noteq> usr_id u \<and>
        (usr_rut r = usr_rut u \<or> usr_email r = usr_email u \<or> usr_username r = usr_username u))"

definition unidad_conflict :: "unidad \<Rightarrow> unidad list \<Rightarrow> bool" where
  "unidad_conflict u rows =
     (\<exists>r \<in> set rows. und_id r \<noteq> und_id u \<and>
        und_proyecto_id r = und_proyecto_id u \<and> und_numero_unidad r = und_numero_unidad u)"

text \<open>A table that satisfies its constraints.\<close>

definition usuarios_wf :: "usuario list \<Rightarrow> bool" where
  "usuarios_wf rows =
     (distinct (map usr_id rows) \<and> distinct (map usr_rut rows)
      \<and> distinct (map usr_email rows) \<and> distinct (map usr_username rows))"

definition unidades_wf :: "unidad list \<Rightarrow> bool" where
  "unidades_wf rows =
     (distinct (map und_id rows)
      \<and> distinct (map (\<lambda>u. (und_proyecto_id u, und_numero_unidad u)) rows))"

text \<open>
  \<^verbatim>\<open>objects.create\<close> inserts a new row; \<^verbatim>\<open>instance.save()\<close> on a loaded instance
  updates the rows with its primary key and inserts when there is none. A refused write
  leaves the table as it was.
\<close>

definition usuario_insert :: "db \<Rightarrow> usuario \<Rightarrow> usuario outcome" where
  "usuario_insert s u =
     (if (\<exists>r \<in> set (usuarios s). usr_id r = usr_id u) \<or> usuario_conflict u (usuarios s)
      then (Inl IntegrityError, s)
      else (Inr u, s\<lparr>usuarios := usuarios s @ [u]\<rparr>))"

definition usuario_save :: "db \<Rightarrow> usuario \<Rightarrow> usuario outcome" where
  "usuario_save s u =
     (if usuario_conflict u (usuarios s) then (Inl IntegrityError, s)
      else if \<exists>r \<in> set (usuarios s). usr_id r = usr_id u
      then (Inr u, s\<lparr>usuarios := map (\<lambda>r. if usr_id r = usr_id u then u else r) (usuarios s)\<rparr>)
      else (Inr u, s\<lparr>usuarios := usuarios s @ [u]\<rparr>))"

text \<open>
  The foreign key \<^verbatim>\<open>cliente = ForeignKey(Usuario, null=True)\<close>: a write is refused
  when it gives the unit a client that no stored user has. A row that is written back
  with the client it already holds passes: the store checks the references that a write
  sets, and the reference was admitted when it was set.
\<close>

definition cliente_fk_violation :: "db \<Rightarrow> unidad \<Rightarrow> bool" where
  "cliente_fk_violation s u =
     (case und_cliente_id u of
        None \<Rightarrow> False
      | Some c \<Rightarrow>
          \<not> (\<exists>x \<in> set (usuarios s). usr_id x = c)
          \<and> \<not> (\<exists>r \<in> set (unidades s). und_id r = und_id u \<and> und_cliente_id r = Some c))"

definition unidad_save :: "db \<Rightarrow> unidad \<Rightarrow> unidad outcome" where
  "unidad_save s u =
     (if unidad_conflict u (unidades s) \<or> cliente_fk_violation s u then (Inl IntegrityError, s)
      else if \<exists>r \<in> set (unidades s). und_id r = und_id u
      then (Inr u, s\<lparr>unidades := map (\<lambda>r. if und_id r = und_id u then u else r) (unidades s)\<rparr>)
      else (Inr u, s\<lparr>unidades := unidades s @ [u]\<rparr>))"

text \<open>
  \<^verbatim>\<open>instance.delete()\<close>: the rows with the instance's primary key go. Deleting a user
  first sets the client of the units that refer to it to null (\<^verbatim>\<open>on_delete=SET_NULL\<close>).
\<close>

definition usuario_delete_row :: "db \<Rightarrow> usuario \<Rightarrow> db" where
  "usuario_delete_row s u =
     s\<lparr>usuarios := filter (\<lambda>r. usr_id r \<noteq> usr_id u) (usuarios s),
       unidades := map (\<lambda>r. if und_cliente_id r = Some (usr_id u)
                             then r\<lparr>und_cliente_id := None\<rparr> else r) (unidades s)\<rparr>"

definition unidad_delete_row :: "db \<Rightarrow> unidad \<Rightarrow> db" where
  "unidad_delete_row s u = s\<lparr>unidades := filter (\<lambda>r. und_id r \<noteq> und_id u) (unidades s)\<rparr>"

section \<open>Repositories\<close>

text \<open>
  The keyword arguments of \<^verbatim>\<open>create\<close> and \<^verbatim>\<open>update\<close>: one optional entry per column,
  \<open>None\<close> for a keyword that is not passed. A keyword passed as \<^verbatim>\<open>None\<close> is only
  modelled for the client of a unit (\<open>Some None\<close>).
\<close>

record usuario_kwargs =
  kw_rut :: "string option"
  kw_email :: "string option"
  kw_username :: "string option"
  kw_first_name :: "string option"
  kw_last_name :: "string option"
  kw_role :: "string option"
  kw_phone :: "string option"
  kw_password :: "string option"

record unidad_kwargs =
  kw_proyecto_id :: "ident option"
  kw_numero_unidad :: "string option"
  kw_tipo_unidad :: "string option"
  kw_metraje_cuadrado :: "rat option"
  kw_precio_venta :: "rat option"
  kw_estado :: "string option"
  kw_cliente_id :: "ident option option"

definition no_usuario_kwargs :: usuario_kwargs where
  "no_usuario_kwargs =
     \<lparr>kw_rut = None, kw_email = None, kw_username = None, kw_first_name = None,
      kw_last_name = None, kw_role = None, kw_phone = None, kw_password = None\<rparr>"

definition no_unidad_kwargs :: unidad_kwargs where
  "no_unidad_kwargs =
     \<lparr>kw_proyecto_id = None, kw_numero_unidad = None, kw_tipo_unidad = None,
      kw_metraje_cuadrado = None, kw_precio_venta = None, kw_estado = None,
      kw_cliente_id = None\<rparr>"

text \<open>
  What a repository offers to \<^verbatim>\<open>BaseService\<close>; the service receives it through its
  constructor.
\<close>

record ('a, 'k) repository =
  repo_get_by_id :: "db \<Rightarrow> ident \<Rightarrow> error + 'a option"
  repo_update :: "db \<Rightarrow> 'a \<Rightarrow> 'k \<Rightarrow> 'a outcome"
  repo_delete :: "db \<Rightarrow> 'a \<Rightarrow> bool outcome"

text \<open>
  The two functions of the framework that the user repository reaches:
  \<^verbatim>\<open>normalize_email\<close> of the user manager and the password hasher behind
  \<^verbatim>\<open>set_password\<close>. They are parameters of the model.
\<close>

record framework =
  normalize_email :: "string \<Rightarrow> string"
  make_password :: "string \<Rightarrow> string"

subsection \<open>UsuarioRepository\<close>

definition usuario_get_by_id :: "db \<Rightarrow> ident \<Rightarrow> error + usuario option" where
  "usuario_get_by_id s i = except_does_not_exist (objects_get (\<lambda>u. usr_id u = i) (usuarios s))"

definition usuario_get_by_email :: "db \<Rightarrow> string \<Rightarrow> error + usuario option" where
  "usuario_get_by_email s email =
     except_does_not_exist (objects_get (\<lambda>u. usr_email u = email) (usuarios s))"

definition usuario_get_by_rut :: "db \<Rightarrow> string \<Rightarrow> error + usuario option" where
  "usuario_get_by_rut s rut =
     except_does_not_exist (objects_get (\<lambda>u. usr_rut u = rut) (usuarios s))"

text \<open>
  \<^verbatim>\<open>setattr\<close> of every keyword but the password on an instance. A new instance starts
  from the column defaults: empty strings, the role \<^verbatim>\<open>Cliente\<close>, no phone.
\<close>

definition usuario_setattrs :: "usuario \<Rightarrow> usuario_kwargs \<Rightarrow> usuario" where
  "usuario_setattrs u kw =
     u\<lparr>usr_rut := (case kw_rut kw of None \<Rightarrow> usr_rut u | Some x \<Rightarrow> x),
       usr_email := (case kw_email kw of None \<Rightarrow> usr_email u | Some x \<Rightarrow> x),
       usr_username := (case kw_username kw of None \<Rightarrow> usr_username u | Some x \<Rightarrow> x),
       usr_first_name := (case kw_first_name kw of None \<Rightarrow> usr_first_name u | Some x \<Rightarrow> x),
       usr_last_name := (case kw_last_name kw of None \<Rightarrow> usr_last_name u | Some x \<Rightarrow> x),
       usr_role := (case kw_role kw of None \<Rightarrow> usr_role u | Some x \<Rightarrow> x),
       usr_phone := (case kw_phone kw of None \<Rightarrow> usr_phone u | Some x \<Rightarrow> Some x)\<rparr>"

definition usuario_default :: "ident \<Rightarrow> usuario" where
  "usuario_default new_id =
     \<lparr>usr_id = new_id, usr_rut = [], usr_email = [], usr_username = [], usr_first_name = [],
      usr_last_name = [], usr_role = ''Cliente'', usr_phone = None, usr_password = []\<rparr>"

text \<open>
  \<^verbatim>\<open>UserManager.create_user(email, password=None, **extra_fields)\<close>: the email is a
  required argument, so the call without it is a \<open>TypeError\<close>.
\<close>

definition create_user :: "framework \<Rightarrow> db \<Rightarrow> ident \<Rightarrow> string \<Rightarrow> usuario_kwargs \<Rightarrow> usuario outcome" where
  "create_user fw s new_id password kw =
     (case kw_email kw of
        None \<Rightarrow> (Inl TypeError, s)
      | Some email \<Rightarrow>
          if email = []
          then (Inl (ValueError (''El correo electr'' @ o_acute # ''nico es obligatorio'')), s)
          else usuario_insert s
                 ((usuario_setattrs (usuario_default new_id) kw)
                    \<lparr>usr_email := normalize_email fw email,
                     usr_password := make_password fw password\<rparr>))"

text \<open>
  \<^verbatim>\<open>UsuarioRepository.create\<close>. The primary key of the new row is the UUID that the model
  draws, an argument here.
\<close>

definition usuario_repo_create :: "framework \<Rightarrow> db \<Rightarrow> ident \<Rightarrow> usuario_kwargs \<Rightarrow> usuario outcome" where
  "usuario_repo_create fw s new_id kw =
     (case kw_password kw of
        None \<Rightarrow> usuario_insert s (usuario_setattrs (usuario_default new_id) kw)
      | Some password \<Rightarrow>
          if password \<noteq> [] then create_user fw s new_id password kw
          else usuario_insert s (usuario_setattrs (usuario_default new_id) kw))"

definition usuario_repo_update :: "framework \<Rightarrow> db \<Rightarrow> usuario \<Rightarrow> usuario_kwargs \<Rightarrow> usuario outcome" where
  "usuario_repo_update fw s instance kw =
     (let instance1 = usuario_setattrs instance kw;
          instance2 = (case kw_password kw of
                         None \<Rightarrow> instance1
                       | Some password \<Rightarrow>
                           if password \<noteq> []
                           then instance1\<lparr>usr_password := make_password fw password\<rparr>
                           else instance1)
      in usuario_save s instance2)"

definition usuario_repo_delete :: "db \<Rightarrow> usuario \<Rightarrow> bool outcome" where
  "usuario_repo_delete s instance = (Inr True, usuario_delete_row s instance)"

definition usuario_repository :: "framework \<Rightarrow> (usuario, usuario_kwargs) repository" where
  "usuario_repository fw =
     \<lparr>repo_get_by_id = usuario_get_by_id, repo_update = usuario_repo_update fw,
      repo_delete = usuario_repo_delete\<rparr>"

subsection \<open>UnidadRepository\<close>

definition unidad_get_by_id :: "db \<Rightarrow> ident \<Rightarrow> error + unidad option" where
  "unidad_get_by_id s i = except_does_not_exist (objects_get (\<lambda>u. und_id u = i) (unidades s))"

definition unidad_setattrs :: "unidad \<Rightarrow> unidad_kwargs \<Rightarrow> unidad" where
  "unidad_setattrs u kw =
     u\<lparr>und_proyecto_id := (case kw_proyecto_id kw of None \<Rightarrow> und_proyecto_id u | Some x \<Rightarrow> x),
       und_numero_unidad :=
         (case kw_numero_unidad kw of None \<Rightarrow> und_numero_unidad u | Some x \<Rightarrow> x),
       und_tipo_unidad := (case kw_tipo_unidad kw of None \<Rightarrow> und_tipo_unidad u | Some x \<Rightarrow> x),
       und_metraje_cuadrado :=
         (case kw_metraje_cuadrado kw of None \<Rightarrow> und_metraje_cuadrado u | Some x \<Rightarrow> x),
       und_precio_venta := (case kw_precio_venta kw of None \<Rightarrow> und_precio_venta u | Some x \<Rightarrow> x),
       und_estado := (case kw_estado kw of None \<Rightarrow> und_estado u | Some x \<Rightarrow> x),
       und_cliente_id := (case kw_cliente_id kw of None \<Rightarrow> und_cliente_id u | Some x \<Rightarrow> x)\<rparr>"

definition unidad_repo_update :: "db \<Rightarrow> unidad \<Rightarrow> unidad_kwargs \<Rightarrow> unidad outcome" where
  "unidad_repo_update s instance kw = unidad_save s (unidad_setattrs instance kw)"

definition unidad_repo_delete :: "db \<Rightarrow> unidad \<Rightarrow> bool outcome" where
  "unidad_repo_delete s instance = (Inr True, unidad_delete_row s instance)"

definition unidad_repository :: "(unidad, unidad_kwargs) repository" where
  "unidad_repository =
     \<lparr>repo_get_by_id = unidad_get_by_id, repo_update = unidad_repo_update,
      repo_delete = unidad_repo_delete\<rparr>"


section \<open>Services\<close>

subsection \<open>BaseService\<close>

text \<open>A model instance is always true in a condition, so \<^verbatim>\<open>not instance\<close> tests for \<^verbatim>\<open>None\<close>.\<close>

definition base_get_by_id :: "('a, 'k) repository \<Rightarrow> db \<Rightarrow> ident \<Rightarrow> error + 'a option" where
  "base_get_by_id repo s i = repo_get_by_id repo s i"

definition base_update :: "('a, 'k) repository \<Rightarrow> db \<Rightarrow> ident \<Rightarrow> 'k \<Rightarrow> 'a option outcome" where
  "base_update repo s i kw =
     (case base_get_by_id repo s i of
        Inl e \<Rightarrow> (Inl e, s)
      | Inr None \<Rightarrow> (Inr None, s)
      | Inr (Some inst) \<Rightarrow>
          (case repo_update repo s inst kw of
             (Inl e, s') \<Rightarrow> (Inl e, s')
           | (Inr updated, s') \<Rightarrow> (Inr (Some updated), s')))"

definition base_delete :: "('a, 'k) repository \<Rightarrow> db \<Rightarrow> ident \<Rightarrow> bool outcome" where
  "base_delete repo s i =
     (case base_get_by_id repo s i of
        Inl e \<Rightarrow> (Inl e, s)
      | Inr None \<Rightarrow> (Inr False, s)
      | Inr (Some inst) \<Rightarrow> repo_delete repo s inst)"

subsection \<open>UnidadService\<close>

definition asignar_cliente :: "db \<Rightarrow> ident \<Rightarrow> ident option \<Rightarrow> unidad option outcome" where
  "asignar_cliente s unidad_id cliente_id =
     (case base_get_by_id unidad_repository s unidad_id of
        Inl e \<Rightarrow> (Inl e, s)
      | Inr None \<Rightarrow> (Inl UnidadNoDisponibleError, s)
      | Inr (Some u) \<Rightarrow>
          if und_estado u \<noteq> ''Disponible'' then (Inl UnidadNoDisponibleError, s)
          else base_update unidad_repository s unidad_id
                 (no_unidad_kwargs\<lparr>kw_cliente_id := Some cliente_id,
                                   kw_estado := Some ''Reservado''\<rparr>))"

definition marcar_como_vendida :: "db \<Rightarrow> ident \<Rightarrow> unidad option outcome" where
  "marcar_como_vendida s unidad_id =
     (case base_get_by_id unidad_repository s unidad_id of
        Inl e \<Rightarrow> (Inl e, s)
      | Inr None \<Rightarrow> (Inl UnidadNoDisponibleError, s)
      | Inr (Some u) \<Rightarrow>
          if und_estado u \<noteq> ''Reservado'' then (Inl UnidadNoDisponibleError, s)
          else if und_cliente_id u = None then (Inl ClienteNoValidoError, s)
          else base_update unidad_repository s unidad_id
                 (no_unidad_kwargs\<lparr>kw_estado := Some ''Vendido''\<rparr>))"




definition round_half_even :: "rat \<Rightarrow> int" where
  "round_half_even q =
     (let f = \<lfloor>q\<rfloor>; r = q - of_int f
      in if r < 1 / 2 then f else if r > 1 / 2 then f + 1
         else if even f then f else f + 1)"










text \<open>The two operations of the unit state machine, and the store after a run of them.\<close>

datatype unidad_op = AsignarCliente ident "ident option" | MarcarComoVendida ident

fun apply_op :: "db \<Rightarrow> unidad_op \<Rightarrow> db" where
  "apply_op s (AsignarCliente unidad_id cliente_id) = snd (asignar_cliente s unidad_id cliente_id)"
| "apply_op s (MarcarComoVendida unidad_id) = snd (marcar_como_vendida s unidad_id)"

definition apply_ops :: "db \<Rightarrow> unidad_op list \<Rightarrow> db" where
  "apply_ops s ops = foldl apply_op s ops"

text \<open>The changes of state that the design allows: none, or one step forward.\<close>

definition forward_step :: "string \<Rightarrow> string \<Rightarrow> bool" where
  "forward_step a b =
     (a = b \<or> (a = ''Disponible'' \<and> b = ''Reservado'') \<or> (a = ''Reservado'' \<and> b = ''Vendido''))"

subsection \<open>UsuarioService\<close>

text \<open>
  The three checks of \<^verbatim>\<open>UsuarioService.create\<close>, each one \<^verbatim>\<open>if\<close> of the method: the
  exception it raises, if any. An empty string is false in a condition, and so is
  \<^verbatim>\<open>None\<close>, the value of \<^verbatim>\<open>kwargs.get\<close> for a keyword that is not passed.
\<close>

definition create_email_check :: "db \<Rightarrow> usuario_kwargs \<Rightarrow> error option" where
  "create_email_check s kw =
     (case kw_email kw of
        None \<Rightarrow> None
      | Some email \<Rightarrow>
          if email \<noteq> []
          then (case usuario_get_by_email s email of
                  Inl e \<Rightarrow> Some e
                | Inr None \<Rightarrow> None
                | Inr (Some existing) \<Rightarrow>
                    Some (ValueError (''Ya existe un usuario con el email '' @ email)))
          else None)"

definition create_rut_check :: "db \<Rightarrow> usuario_kwargs \<Rightarrow> error option" where
  "create_rut_check s kw =
     (case kw_rut kw of
        None \<Rightarrow> None
      | Some rut \<Rightarrow>
          if rut \<noteq> []
          then (case usuario_get_by_rut s rut of
                  Inl e \<Rightarrow> Some e
                | Inr None \<Rightarrow> None
                | Inr (Some existing) \<Rightarrow>
                    Some (ValueError (''Ya existe un usuario con el RUT '' @ rut)))
          else None)"

definition role_check :: "usuario_kwargs \<Rightarrow> error option" where
  "role_check kw =
     (case kw_role kw of
        None \<Rightarrow> None
      | Some role \<Rightarrow>
          if role \<noteq> [] \<and> role \<notin> set [''Administrador'', ''Cliente'']
          then Some (ValueError (''El rol '' @ role @ '' no es v'' @ a_acute
                 # ''lido. Debe ser '' @ CHR 0x27 # ''Administrador'' @ CHR 0x27
                 # '' o '' @ CHR 0x27 # ''Cliente'' @ [CHR 0x27]))
          else None)"

definition usuario_create :: "framework \<Rightarrow> db \<Rightarrow> ident \<Rightarrow> usuario_kwargs \<Rightarrow> usuario outcome" where
  "usuario_create fw s new_id kw =
     (case create_email_check s kw of
        Some e \<Rightarrow> (Inl e, s)
      | None \<Rightarrow>
          (case create_rut_check s kw of
             Some e \<Rightarrow> (Inl e, s)
           | None \<Rightarrow>
               (case role_check kw of
                  Some e \<Rightarrow> (Inl e, s)
                | None \<Rightarrow> usuario_repo_create fw s new_id kw)))"

text \<open>
  The checks of \<^verbatim>\<open>UsuarioService.update\<close> on the instance found: a value is looked up
  only when it is passed, not empty and differs from the instance's own.
\<close>

definition update_email_check :: "db \<Rightarrow> ident \<Rightarrow> usuario \<Rightarrow> usuario_kwargs \<Rightarrow> error option" where
  "update_email_check s i inst kw =
     (case kw_email kw of
        None \<Rightarrow> None
      | Some email \<Rightarrow>
          if email \<noteq> [] \<and> email \<noteq> usr_email inst
          then (case usuario_get_by_email s email of
                  Inl e \<Rightarrow> Some e
                | Inr None \<Rightarrow> None
                | Inr (Some existing) \<Rightarrow>
                    if usr_id existing \<noteq> i
                    then Some (ValueError (''Ya existe un usuario con el email '' @ email))
                    else None)
          else None)"

definition update_rut_check :: "db \<Rightarrow> ident \<Rightarrow> usuario \<Rightarrow> usuario_kwargs \<Rightarrow> error option" where
  "update_rut_check s i inst kw =
     (case kw_rut kw of
        None \<Rightarrow> None
      | Some rut \<Rightarrow>
          if rut \<noteq> [] \<and> rut \<noteq> usr_rut inst
          then (case usuario_get_by_rut s rut of
                  Inl e \<Rightarrow> Some e
                | Inr None \<Rightarrow> None
                | Inr (Some existing) \<Rightarrow>
                    if usr_id existing \<noteq> i
                    then Some (ValueError (''Ya existe un usuario con el RUT '' @ rut))
                    else None)
          else None)"

definition usuario_update ::
  "framework \<Rightarrow> db \<Rightarrow> ident \<Rightarrow> usuario_kwargs \<Rightarrow> usuario option outcome" where
  "usuario_update fw s i kw =
     (case base_get_by_id (usuario_repository fw) s i of
        Inl e \<Rightarrow> (Inl e, s)
      | Inr None \<Rightarrow> (Inr None, s)
      | Inr (Some inst) \<Rightarrow>
          (case update_email_check s i inst kw of
             Some e \<Rightarrow> (Inl e, s)
           | None \<Rightarrow>
               (case update_rut_check s i inst kw of
                  Some e \<Rightarrow> (Inl e, s)
                | None \<Rightarrow>
                    (case role_check kw of
                       Some e \<Rightarrow> (Inl e, s)
                     | None \<Rightarrow>
                         (case repo_update (usuario_repository fw) s inst kw of
                            (Inl e, s') \<Rightarrow> (Inl e, s')
                          | (Inr updated, s') \<Rightarrow> (Inr (Some updated), s'))))))"

text \<open>\<^verbatim>\<open>UsuarioService\<close> inherits \<^verbatim>\<open>delete\<close> from \<^verbatim>\<open>BaseService\<close>.\<close>

definition usuario_delete :: "framework \<Rightarrow> db \<Rightarrow> ident \<Rightarrow> bool outcome" where
  "usuario_delete fw s i = base_delete (usuario_repository fw) s i"

section \<open>Sample data\<close>

text \<open>A store with two users and four units, used to run the methods on concrete inputs.\<close>

definition sample_framework :: framework where
  "sample_framework = \<lparr>normalize_email = (\<lambda>e. e), make_password = (\<lambda>p. ''hashed:'' @ p)\<rparr>"

definition ana :: usuario where
  "ana = \<lparr>usr_id = 7, usr_rut = ''12345678-9'', usr_email = ''ana@example.com'',
          usr_username = ''ana'', usr_first_name = ''Ana'', usr_last_name = ''Rojas'',
          usr_role = ''Cliente'', usr_phone = None, usr_password = []\<rparr>"

definition luis :: usuario where
  "luis = \<lparr>usr_id = 8, usr_rut = ''7654321-K'', usr_email = ''luis@example.com'',
           usr_username = ''luis'', usr_first_name = ''Luis'', usr_last_name = ''Soto'',
           usr_role = ''Administrador'', usr_phone = None, usr_password = []\<rparr>"

definition unit_a :: unidad where
  "unit_a = \<lparr>und_id = 1, und_proyecto_id = 10, und_numero_unidad = ''A101'',
             und_tipo_unidad = ''Departamento'', und_metraje_cuadrado = 161 / 2,
             und_precio_venta = 5000, und_estado = ''Disponible'', und_cliente_id = None\<rparr>"

definition unit_b :: unidad where
  "unit_b = \<lparr>und_id = 2, und_proyecto_id = 20, und_numero_unidad = ''B1'',
             und_tipo_unidad = ''Casa'', und_metraje_cuadrado = 120,
             und_precio_venta = 7000, und_estado = ''Vendido'', und_cliente_id = Some 7\<rparr>"

definition unit_c :: unidad where
  "unit_c = \<lparr>und_id = 3, und_proyecto_id = 20, und_numero_unidad = ''B2'',
             und_tipo_unidad = ''Casa'', und_metraje_cuadrado = 100,
             und_precio_venta = 6000, und_estado = ''Reservado'', und_cliente_id = None\<rparr>"

definition unit_d :: unidad where
  "unit_d = \<lparr>und_id = 4, und_proyecto_id = 20, und_numero_unidad = ''B3'',
             und_tipo_unidad = ''Oficina'', und_metraje_cuadrado = 45,
             und_precio_venta = 3000, und_estado = ''Reservado'', und_cliente_id = Some 7\<rparr>"

definition sample_db :: db where
  "sample_db = \<lparr>usuarios = [ana, luis], unidades = [unit_a, unit_b, unit_c, unit_d]\<rparr>"

definition usuario_data :: pydict where
  "usuario_data =
     [''rut'' \<mapsto> PStr ''12345678-9'', ''email'' \<mapsto> PStr ''test@example.com'',
      ''first_name'' \<mapsto> PStr ''Test'', ''last_name'' \<mapsto> PStr ''User'',
      ''password'' \<mapsto> PStr ''SecurePass1'', ''role'' \<mapsto> PStr ''Cliente'',
      ''username'' \<mapsto> PStr ''testuser'']"

definition proyecto_data :: pydict where
  "proyecto_data =
     [''nombre'' \<mapsto> PStr ''Proyecto Test'', ''ubicacion'' \<mapsto> PStr ''Avenida Test 123'',
      ''fecha_inicio'' \<mapsto> PStr ''2024-01-01'', ''fecha_finalizacion'' \<mapsto> PStr ''2023-12-31'',
      ''estado'' \<mapsto> PStr ''Terminado'', ''codigo'' \<mapsto> PStr ''TEST002'']"

definition unidad_data :: pydict where
  "unidad_data =
     [''proyecto_id'' \<mapsto> PUuid 10, ''numero_unidad'' \<mapsto> PStr ''A101'',
      ''tipo_unidad'' \<mapsto> PStr ''Departamento'', ''metraje_cuadrado'' \<mapsto> PFloat (161 / 2),
      ''precio_venta'' \<mapsto> PInt 5000, ''estado'' \<mapsto> PStr ''Disponible'']"

definition new_validator :: "vkind \<Rightarrow> pydict \<Rightarrow> validator" where
  "new_validator k d = \<lparr>kind = k, data = d, errors = []\<rparr>"

section \<open>Notions of the specification\<close>

text \<open>
  The shape of a RUT as the specification words it: the whole string is one to eight
  digits, a hyphen, and one check character that is a digit, \<^verbatim>\<open>k\<close> or \<^verbatim>\<open>K\<close>.
\<close>

definition rut_shape :: "string \<Rightarrow> bool" where
  "rut_shape s =
     (case rev s of
        c # h # ds \<Rightarrow>
          c \<in> set (digits @ ''kK'') \<and> h = CHR ''-'' \<and> 1 \<le> length ds \<and> length ds \<le> 8
          \<and> list_all (\<lambda>d. d \<in> set digits) ds
      | _ \<Rightarrow> False)"

text \<open>
  The types the checks are written for. A field that is measured with \<^verbatim>\<open>len\<close> or
  matched against a pattern is a string, or a value that is false in a condition (a
  missing key, \<^verbatim>\<open>None\<close>, an empty string, zero); a date field is such a value or a
  native date; the floor area and the price are missing, \<^verbatim>\<open>None\<close> or a number.
\<close>

fun is_str :: "pyval \<Rightarrow> bool" where
  "is_str (PStr s) = True"
| "is_str v = False"

fun is_date :: "pyval \<Rightarrow> bool" where
  "is_date (PDate d) = True"
| "is_date v = False"

definition is_number :: "pyval \<Rightarrow> bool" where
  "is_number v = (num_val v \<noteq> None)"

definition text_or_false :: "pyval \<Rightarrow> bool" where
  "text_or_false x = (is_str x \<or> \<not> truthy x)"

definition date_or_false :: "pyval \<Rightarrow> bool" where
  "date_or_false x = (is_str x \<or> is_date x \<or> \<not> truthy x)"

definition number_or_none :: "pyval \<Rightarrow> bool" where
  "number_or_none x = (x = PNone \<or> is_number x)"

definition well_typed :: "validator \<Rightarrow> bool" where
  "well_typed v =
     (case kind v of
        UsuarioValidator \<Rightarrow>
          list_all (\<lambda>k. text_or_false (dict_get (data v) k))
            [''rut'', ''email'', ''first_name'', ''last_name'', ''password'', ''phone'']
      | ProyectoValidator \<Rightarrow>
          list_all (\<lambda>k. text_or_false (dict_get (data v) k)) [''nombre'', ''ubicacion'', ''codigo'']
          \<and> list_all (\<lambda>k. date_or_false (dict_get (data v) k))
                [''fecha_inicio'', ''fecha_finalizacion'']
      | UnidadValidator \<Rightarrow>
          text_or_false (dict_get (data v) ''numero_unidad'')
          \<and> list_all (\<lambda>k. number_or_none (dict_get (data v) k))
                [''metraje_cuadrado'', ''precio_venta''])"

text \<open>
  The language of a pattern, against which the matcher is checked: the strings of a class
  are its single characters, a sequence concatenates, an alternative unites, a star
  repeats any number of times.
\<close>

definition lang_conc :: "string set \<Rightarrow> string set \<Rightarrow> string set" where
  "lang_conc A B = {u @ v | u v. u \<in> A \<and> v \<in> B}"

inductive_set lang_star :: "string set \<Rightarrow> string set" for A :: "string set" where
  star_empty: "[] \<in> lang_star A"
| star_more: "u \<in> A \<Longrightarrow> v \<in> lang_star A \<Longrightarrow> u @ v \<in> lang_star A"

fun lang :: "regex \<Rightarrow> string set" where
  "lang Nul = {}"
| "lang Eps = {[]}"
| "lang (Cls cs) = {[c] | c. c \<in> set cs}"
| "lang (Seq r s) = lang_conc (lang r) (lang s)"
| "lang (Alt r s) = lang r \<union> lang s"
| "lang (Star r) = lang_star (lang r)"

section \<open>Properties\<close>

subsection \<open>Lookups and saves\<close>

lemma get_Some_iff:
  "except_does_not_exist (objects_get p rows) = Inr (Some x) \<longleftrightarrow> filter p rows = [x]"
  by (cases "filter p rows" rule: list.exhaust[case_names Nil Cons]; cases "tl (filter p rows)")
     (auto simp: objects_get_def split: list.splits)

lemma get_None_iff:
  "except_does_not_exist (objects_get p rows) = Inr None \<longleftrightarrow> filter p rows = []"
  by (auto simp: objects_get_def split: list.splits)

lemma get_Inl_iff:
  "except_does_not_exist (objects_get p rows) = Inl e \<longleftrightarrow>
     (e = MultipleObjectsReturned \<and> length (filter p rows) \<ge> 2)"
  by (auto simp: objects_get_def split: list.splits)

lemma filter_singleton_mem: "filter p rows = [x] \<Longrightarrow> x \<in> set rows \<and> p x"
proof -
  assume h: "filter p rows = [x]"
  have "x \<in> set (filter p rows)" by (simp add: h)
  then show ?thesis by simp
qed

lemma filter_map_replace:
  "p u' \<Longrightarrow> filter p (map (\<lambda>r. if p r then u' else r) rows) = map (\<lambda>r. u') (filter p rows)"
  by (induction rows) auto

lemma filter_map_replace_other:
  "(\<And>r. q r \<Longrightarrow> \<not> p r) \<Longrightarrow> \<not> q u' \<Longrightarrow>
   filter q (map (\<lambda>r. if p r then u' else r) rows) = filter q rows"
  by (induction rows) auto

lemma unidades_wf_no_conflict:
  assumes "unidades_wf rows" "u \<in> set rows" "und_id u' = und_id u"
    "und_proyecto_id u' = und_proyecto_id u" "und_numero_unidad u' = und_numero_unidad u"
  shows "\<not> unidad_conflict u' rows"
proof
  assume "unidad_conflict u' rows"
  then obtain r where r: "r \<in> set rows" "und_id r \<noteq> und_id u"
    "und_proyecto_id r = und_proyecto_id u" "und_numero_unidad r = und_numero_unidad u"
    using assms(3-5) by (auto simp: unidad_conflict_def)
  from assms(1) have "inj_on (\<lambda>u. (und_proyecto_id u, und_numero_unidad u)) (set rows)"
    by (simp add: unidades_wf_def distinct_map)
  with r assms(2) have "r = u" by (auto dest: inj_onD)
  with r(2) show False by simp
qed


lemma unidad_get_by_id_Some:
  "unidad_get_by_id s i = Inr (Some u) \<longleftrightarrow> filter (\<lambda>r. und_id r = i) (unidades s) = [u]"
  by (simp add: unidad_get_by_id_def get_Some_iff)

lemma unidad_get_by_id_SomeD:
  "unidad_get_by_id s i = Inr (Some u) \<Longrightarrow> u \<in> set (unidades s) \<and> und_id u = i"
  using filter_singleton_mem[of "\<lambda>r. und_id r = i" "unidades s" u]
  by (simp add: unidad_get_by_id_Some)

lemma unidad_setattrs_keys:
  "und_id (unidad_setattrs u kw) = und_id u"
  "kw_proyecto_id kw = None \<Longrightarrow> und_proyecto_id (unidad_setattrs u kw) = und_proyecto_id u"
  "kw_numero_unidad kw = None \<Longrightarrow> und_numero_unidad (unidad_setattrs u kw) = und_numero_unidad u"
  by (simp_all add: unidad_setattrs_def)

lemma cliente_fk_ok:
  assumes "unidad_get_by_id s i = Inr (Some u)" "und_id u' = i"
    and "und_cliente_id u' = None \<or> und_cliente_id u' = und_cliente_id u
         \<or> (\<exists>x \<in> set (usuarios s). und_cliente_id u' = Some (usr_id x))"
  shows "\<not> cliente_fk_violation s u'"
proof -
  from assms(1) have "u \<in> set (unidades s)" "und_id u = i"
    by (simp_all add: unidad_get_by_id_SomeD)
  with assms(2,3) show ?thesis
    by (cases "und_cliente_id u'") (auto simp: cliente_fk_violation_def)
qed

lemma unidad_update_ok:
  assumes wf: "unidades_wf (unidades s)" and found: "unidad_get_by_id s i = Inr (Some u)"
    and keys: "kw_proyecto_id kw = None" "kw_numero_unidad kw = None"
    and fk: "\<not> cliente_fk_violation s (unidad_setattrs u kw)"
  shows "base_update unidad_repository s i kw =
           (Inr (Some (unidad_setattrs u kw)),
            s\<lparr>unidades := map (\<lambda>r. if und_id r = i then unidad_setattrs u kw else r) (unidades s)\<rparr>)"
proof -
  from found have mem: "u \<in> set (unidades s)" and uid: "und_id u = i"
    by (simp_all add: unidad_get_by_id_SomeD)
  have "\<not> unidad_conflict (unidad_setattrs u kw) (unidades s)"
    using wf mem keys by (intro unidades_wf_no_conflict[of _ u]) (simp_all add: unidad_setattrs_keys)
  moreover have "\<exists>r \<in> set (unidades s). und_id r = und_id (unidad_setattrs u kw)"
    using mem by (auto simp: unidad_setattrs_keys)
  ultimately show ?thesis
    using found uid fk
    by (simp add: base_update_def base_get_by_id_def unidad_repository_def
        unidad_repo_update_def unidad_save_def unidad_setattrs_keys)
qed

lemma unidad_get_after_replace:
  assumes "unidad_get_by_id s i = Inr (Some u)" "und_id u' = i"
  shows "unidad_get_by_id (s\<lparr>unidades := map (\<lambda>r. if und_id r = i then u' else r) (unidades s)\<rparr>) i
           = Inr (Some u')"
  using assms filter_map_replace[of "\<lambda>r. und_id r = i" u' "unidades s"]
  by (simp add: unidad_get_by_id_Some)

lemma unidad_get_other_after_replace:
  assumes "j \<noteq> i" "und_id u' = i"
  shows "unidad_get_by_id (s\<lparr>unidades := map (\<lambda>r. if und_id r = i then u' else r) (unidades s)\<rparr>) j
           = unidad_get_by_id s j"
  using assms filter_map_replace_other[of "\<lambda>r. und_id r = j" "\<lambda>r. und_id r = i" u' "unidades s"]
  by (simp add: unidad_get_by_id_def objects_get_def)





text \<open>
  Claim C2. \<^verbatim>\<open>marcar_como_vendida(unidad_id)\<close> raises \<open>UnidadNoDisponibleError\<close> when
  no unit has the id and when the unit's state is not \<^verbatim>\<open>Reservado\<close>, raises
  \<open>ClienteNoValidoError\<close> when the state is \<^verbatim>\<open>Reservado\<close> and the unit has no client,
  each time leaving the store as it was; on a reserved unit with a client, in a table that
  satisfies its constraints, it sets the state to \<^verbatim>\<open>Vendido\<close> and keeps the client.
\<close>

theorem marcar_como_vendida_sells:
  "(unidad_get_by_id s i = Inr None \<longrightarrow>
      marcar_como_vendida s i = (Inl UnidadNoDisponibleError, s))
   \<and> (\<forall>u. unidad_get_by_id s i = Inr (Some u) \<and> und_estado u \<noteq> ''Reservado'' \<longrightarrow>
      marcar_como_vendida s i = (Inl UnidadNoDisponibleError, s))
   \<and> (\<forall>u. unidad_get_by_id s i = Inr (Some u) \<and> und_estado u = ''Reservado''
          \<and> und_cliente_id u = None \<longrightarrow>
      marcar_como_vendida s i = (Inl ClienteNoValidoError, s))
   \<and> (\<forall>u. unidades_wf (unidades s) \<and> unidad_get_by_id s i = Inr (Some u)
          \<and> und_estado u = ''Reservado'' \<and> und_cliente_id u \<noteq> None \<longrightarrow>
      (\<exists>s'. marcar_como_vendida s i = (Inr (Some (u\<lparr>und_estado := ''Vendido''\<rparr>)), s')
         \<and> unidad_get_by_id s' i = Inr (Some (u\<lparr>und_estado := ''Vendido''\<rparr>))
         \<and> und_cliente_id (u\<lparr>und_estado := ''Vendido''\<rparr>) = und_cliente_id u
         \<and> (\<forall>j. j \<noteq> i \<longrightarrow> unidad_get_by_id s' j = unidad_get_by_id s j)
         \<and> usuarios s' = usuarios s))"
proof (intro conjI allI impI)
  assume "unidad_get_by_id s i = Inr None"
  then show "marcar_como_vendida s i = (Inl UnidadNoDisponibleError, s)"
    by (simp add: marcar_como_vendida_def base_get_by_id_def unidad_repository_def)
next
  fix u assume "unidad_get_by_id s i = Inr (Some u) \<and> und_estado u \<noteq> ''Reservado''"
  then show "marcar_como_vendida s i = (Inl UnidadNoDisponibleError, s)"
    by (simp add: marcar_como_vendida_def base_get_by_id_def unidad_repository_def)
next
  fix u
  assume "unidad_get_by_id s i = Inr (Some u) \<and> und_estado u = ''Reservado''
            \<and> und_cliente_id u = None"
  then show "marcar_como_vendida s i = (Inl ClienteNoValidoError, s)"
    by (simp add: marcar_como_vendida_def base_get_by_id_def unidad_repository_def)
next
  fix u
  assume h: "unidades_wf (unidades s) \<and> unidad_get_by_id s i = Inr (Some u)
               \<and> und_estado u = ''Reservado'' \<and> und_cliente_id u \<noteq> None"
  define kw where "kw = no_unidad_kwargs\<lparr>kw_estado := Some ''Vendido''\<rparr>"
  define u' where "u' = u\<lparr>und_estado := ''Vendido''\<rparr>"
  define s' where "s' = s\<lparr>unidades := map (\<lambda>r. if und_id r = i then u' else r) (unidades s)\<rparr>"
  have set: "unidad_setattrs u kw = u'"
    by (simp add: unidad_setattrs_def kw_def u'_def no_unidad_kwargs_def)
  have uid: "und_id u' = i"
    using h unidad_get_by_id_SomeD[of s i u] by (simp add: u'_def)
  have upd: "base_update unidad_repository s i kw = (Inr (Some u'), s')"
  proof -
    have "kw_proyecto_id kw = None" "kw_numero_unidad kw = None"
      by (simp_all add: kw_def no_unidad_kwargs_def)
    moreover have "\<not> cliente_fk_violation s u'"
    proof (rule cliente_fk_ok[of s i u])
      show "unidad_get_by_id s i = Inr (Some u)" using h by simp
      show "und_id u' = i" by (rule uid)
      show "und_cliente_id u' = None \<or> und_cliente_id u' = und_cliente_id u
         \<or> (\<exists>x \<in> set (usuarios s). und_cliente_id u' = Some (usr_id x))"
        by (simp add: u'_def)
    qed
    ultimately have "base_update unidad_repository s i kw =
           (Inr (Some (unidad_setattrs u kw)),
            s\<lparr>unidades := map (\<lambda>r. if und_id r = i then unidad_setattrs u kw else r) (unidades s)\<rparr>)"
      using h by (intro unidad_update_ok) (simp_all add: set)
    then show ?thesis by (simp only: set s'_def)
  qed
  have run: "marcar_como_vendida s i = (Inr (Some u'), s')"
    using h upd
    by (simp add: marcar_como_vendida_def base_get_by_id_def unidad_repository_def kw_def)
  have after: "unidad_get_by_id s' i = Inr (Some u')"
    unfolding s'_def using h uid by (intro unidad_get_after_replace) simp_all
  have others: "\<forall>j. j \<noteq> i \<longrightarrow> unidad_get_by_id s' j = unidad_get_by_id s j"
    unfolding s'_def using uid by (simp add: unidad_get_other_after_replace)
  have "usuarios s' = usuarios s" by (simp add: s'_def)
  moreover have "und_cliente_id u' = und_cliente_id u" by (simp add: u'_def)
  ultimately
  show "\<exists>s'. marcar_como_vendida s i = (Inr (Some (u\<lparr>und_estado := ''Vendido''\<rparr>)), s')
         \<and> unidad_get_by_id s' i = Inr (Some (u\<lparr>und_estado := ''Vendido''\<rparr>))
         \<and> und_cliente_id (u\<lparr>und_estado := ''Vendido''\<rparr>) = und_cliente_id u
         \<and> (\<forall>j. j \<noteq> i \<longrightarrow> unidad_get_by_id s' j = unidad_get_by_id s j)
         \<and> usuarios s' = usuarios s"
    using run after others unfolding u'_def by blast
qed

theorem marcar_como_vendida_sells_witness:
  "unidad_get_by_id sample_db 9 = Inr None
   \<and> marcar_como_vendida sample_db 9 = (Inl UnidadNoDisponibleError, sample_db)
   \<and> unidad_get_by_id sample_db 1 = Inr (Some unit_a) \<and> und_estado unit_a \<noteq> ''Reservado''
   \<and> marcar_como_vendida sample_db 1 = (Inl UnidadNoDisponibleError, sample_db)
   \<and> unidad_get_by_id sample_db 3 = Inr (Some unit_c) \<and> und_estado unit_c = ''Reservado''
   \<and> und_cliente_id unit_c = None
   \<and> marcar_como_vendida sample_db 3 = (Inl ClienteNoValidoError, sample_db)
   \<and> unidades_wf (unidades sample_db)
   \<and> unidad_get_by_id sample_db 4 = Inr (Some unit_d) \<and> und_estado unit_d = ''Reservado''
   \<and> und_cliente_id unit_d \<noteq> None
   \<and> fst (marcar_como_vendida sample_db 4) = Inr (Some (unit_d\<lparr>und_estado := ''Vendido''\<rparr>))
   \<and> unidad_get_by_id (snd (marcar_como_vendida sample_db 4)) 4 =
        Inr (Some (unit_d\<lparr>und_estado := ''Vendido''\<rparr>))"
proof -
  have g9: "unidad_get_by_id sample_db 9 = Inr None"
    and g1: "unidad_get_by_id sample_db 1 = Inr (Some unit_a)"
    and g3: "unidad_get_by_id sample_db 3 = Inr (Some unit_c)"
    and g4: "unidad_get_by_id sample_db 4 = Inr (Some unit_d)"
    by (simp_all add: unidad_get_by_id_def objects_get_def sample_db_def unit_a_def unit_b_def
        unit_c_def unit_d_def)
  have st: "und_estado unit_a \<noteq> ''Reservado''" "und_estado unit_c = ''Reservado''"
    "und_cliente_id unit_c = None" "und_estado unit_d = ''Reservado''"
    "und_cliente_id unit_d \<noteq> None"
    by (simp_all add: unit_a_def unit_c_def unit_d_def)
  have wf: "unidades_wf (unidades sample_db)"
    by (simp add: unidades_wf_def sample_db_def unit_a_def unit_b_def unit_c_def unit_d_def)
  from marcar_como_vendida_sells[of sample_db 9] g9
  have r9: "marcar_como_vendida sample_db 9 = (Inl UnidadNoDisponibleError, sample_db)"
    by blast
  from marcar_como_vendida_sells[of sample_db 1] g1 st(1)
  have r1: "marcar_como_vendida sample_db 1 = (Inl UnidadNoDisponibleError, sample_db)"
    by blast
  from marcar_como_vendida_sells[of sample_db 3] g3 st(2,3)
  have r3: "marcar_como_vendida sample_db 3 = (Inl ClienteNoValidoError, sample_db)"
    by blast
  from marcar_como_vendida_sells[of sample_db 4] wf g4 st(4,5)
  obtain s' where "marcar_como_vendida sample_db 4 =
        (Inr (Some (unit_d\<lparr>und_estado := ''Vendido''\<rparr>)), s')"
    and "unidad_get_by_id s' 4 = Inr (Some (unit_d\<lparr>und_estado := ''Vendido''\<rparr>))"
    by blast
  then have r4: "fst (marcar_como_vendida sample_db 4) =
        Inr (Some (unit_d\<lparr>und_estado := ''Vendido''\<rparr>))
    \<and> unidad_get_by_id (snd (marcar_como_vendida sample_db 4)) 4 =
        Inr (Some (unit_d\<lparr>und_estado := ''Vendido''\<rparr>))"
    by simp
  from g9 r9 g1 st r1 g3 r3 wf g4 r4 show ?thesis by blast
qed

subsection \<open>Ids that no row has\<close>

lemma usuario_get_by_id_missing:
  "i \<notin> usr_id ` set (usuarios s) \<Longrightarrow> usuario_get_by_id s i = Inr None"
proof -
  assume "i \<notin> usr_id ` set (usuarios s)"
  then have "filter (\<lambda>u. usr_id u = i) (usuarios s) = []"
    by (auto simp: filter_empty_conv)
  then show ?thesis by (simp add: usuario_get_by_id_def get_None_iff)
qed

text \<open>
  Claim C10. For an id that no stored user has, \<^verbatim>\<open>UsuarioService.update(id, fields)\<close>
  returns \<^verbatim>\<open>None\<close> and leaves the store as it was, whatever the fields are, so no
  uniqueness or role check decides the outcome. \<^verbatim>\<open>BaseService.delete(id)\<close>, for any
  repository whose lookup finds nothing under the id, and so \<^verbatim>\<open>UsuarioService.delete\<close>
  for an id no user has, returns \<^verbatim>\<open>False\<close> and leaves the store as it was.
\<close>

theorem missing_id_update_and_delete:
  "(i \<notin> usr_id ` set (usuarios s) \<longrightarrow> usuario_update fw s i kw = (Inr None, s))
   \<and> (repo_get_by_id repo s i = Inr None \<longrightarrow> base_delete repo s i = (Inr False, s))
   \<and> (i \<notin> usr_id ` set (usuarios s) \<longrightarrow> usuario_delete fw s i = (Inr False, s))"
  by (simp add: usuario_update_def usuario_delete_def base_delete_def base_get_by_id_def
      usuario_repository_def usuario_get_by_id_missing)

theorem missing_id_update_and_delete_witness:
  "9 \<notin> usr_id ` set (usuarios sample_db)
   \<and> usuario_update sample_framework sample_db 9
        (no_usuario_kwargs\<lparr>kw_email := Some ''ana@example.com'', kw_role := Some ''Jefe''\<rparr>)
       = (Inr None, sample_db)
   \<and> repo_get_by_id unidad_repository sample_db 9 = Inr None
   \<and> base_delete unidad_repository sample_db 9 = (Inr False, sample_db)
   \<and> usuario_delete sample_framework sample_db 9 = (Inr False, sample_db)"
proof -
  have miss: "9 \<notin> usr_id ` set (usuarios sample_db)"
    by (simp add: sample_db_def ana_def luis_def)
  have miss_unit: "repo_get_by_id unidad_repository sample_db 9 = Inr None"
    by (simp add: unidad_repository_def unidad_get_by_id_def objects_get_def sample_db_def
        unit_a_def unit_b_def unit_c_def unit_d_def)
  note a = missing_id_update_and_delete[of 9 sample_db sample_framework
      "no_usuario_kwargs\<lparr>kw_email := Some ''ana@example.com'', kw_role := Some ''Jefe''\<rparr>"
      unidad_repository]
  from a miss miss_unit show ?thesis by blast
qed

subsection \<open>The unit state machine under sequences of operations\<close>

lemma unidad_save_replace:
  assumes "unidad_get_by_id s i = Inr (Some u)" "und_id u' = i"
  shows "unidad_save s u' = (Inl IntegrityError, s)
       \<or> unidad_save s u' =
           (Inr u', s\<lparr>unidades := map (\<lambda>r. if und_id r = i then u' else r) (unidades s)\<rparr>)"
proof -
  from assms(1) have "u \<in> set (unidades s)" "und_id u = i"
    by (simp_all add: unidad_get_by_id_SomeD)
  then have "\<exists>r \<in> set (unidades s). und_id r = und_id u'"
    using assms(2) by auto
  then show ?thesis using assms(2) by (simp add: unidad_save_def)
qed

lemma base_update_unidad_cases:
  assumes "unidad_get_by_id s i = Inr (Some u)"
  shows "snd (base_update unidad_repository s i kw) = s
       \<or> snd (base_update unidad_repository s i kw) =
           s\<lparr>unidades := map (\<lambda>r. if und_id r = i then unidad_setattrs u kw else r) (unidades s)\<rparr>"
  using assms unidad_save_replace[OF assms, of "unidad_setattrs u kw"]
    unidad_get_by_id_SomeD[OF assms]
  by (auto simp: base_update_def base_get_by_id_def unidad_repository_def
      unidad_repo_update_def unidad_setattrs_keys)

text \<open>
  What one operation does to the store: nothing, or it replaces the rows of one unit that
  was available by the unit reserved, or of one that was reserved by the unit sold.
\<close>

lemma apply_op_cases:
  "apply_op s op = s
   \<or> (\<exists>k u u'. unidad_get_by_id s k = Inr (Some u)
         \<and> ((und_estado u = ''Disponible'' \<and> und_estado u' = ''Reservado'')
            \<or> (und_estado u = ''Reservado'' \<and> und_estado u' = ''Vendido''))
         \<and> und_id u' = k
         \<and> apply_op s op = s\<lparr>unidades := map (\<lambda>r. if und_id r = k then u' else r) (unidades s)\<rparr>)"
proof (cases op)
  case (AsignarCliente k c)
  define kw where "kw = no_unidad_kwargs\<lparr>kw_cliente_id := Some c, kw_estado := Some ''Reservado''\<rparr>"
  show ?thesis
  proof (cases "\<exists>u. unidad_get_by_id s k = Inr (Some u) \<and> und_estado u = ''Disponible''")
    case True
    then obtain u where u: "unidad_get_by_id s k = Inr (Some u)" "und_estado u = ''Disponible''"
      by blast
    have run: "apply_op s op = snd (base_update unidad_repository s k kw)"
      using u by (simp add: AsignarCliente asignar_cliente_def base_get_by_id_def
          unidad_repository_def kw_def)
    have st: "und_estado (unidad_setattrs u kw) = ''Reservado''"
      by (simp add: unidad_setattrs_def kw_def)
    have uid: "und_id (unidad_setattrs u kw) = k"
      using unidad_get_by_id_SomeD[OF u(1)] by (simp add: unidad_setattrs_keys)
    from base_update_unidad_cases[OF u(1), of kw]
    show ?thesis
    proof
      assume "snd (base_update unidad_repository s k kw) = s"
      with run show ?thesis by simp
    next
      assume "snd (base_update unidad_repository s k kw) =
           s\<lparr>unidades := map (\<lambda>r. if und_id r = k then unidad_setattrs u kw else r) (unidades s)\<rparr>"
      with run have "apply_op s op =
           s\<lparr>unidades := map (\<lambda>r. if und_id r = k then unidad_setattrs u kw else r) (unidades s)\<rparr>"
        by simp
      with u st uid show ?thesis
        by (intro disjI2 exI[of _ k] exI[of _ u] exI[of _ "unidad_setattrs u kw"]) simp
    qed
  next
    case False
    then have "apply_op s op = s"
      by (auto simp: AsignarCliente asignar_cliente_def base_get_by_id_def unidad_repository_def
          split: sum.splits option.splits)
    then show ?thesis by simp
  qed
next
  case (MarcarComoVendida k)
  define kw where "kw = no_unidad_kwargs\<lparr>kw_estado := Some ''Vendido''\<rparr>"
  show ?thesis
  proof (cases "\<exists>u. unidad_get_by_id s k = Inr (Some u) \<and> und_estado u = ''Reservado''
                  \<and> und_cliente_id u \<noteq> None")
    case True
    then obtain u where u: "unidad_get_by_id s k = Inr (Some u)" "und_estado u = ''Reservado''"
      "und_cliente_id u \<noteq> None"
      by blast
    have run: "apply_op s op = snd (base_update unidad_repository s k kw)"
      using u by (auto simp add: MarcarComoVendida marcar_como_vendida_def base_get_by_id_def
          unidad_repository_def kw_def)
    have st: "und_estado (unidad_setattrs u kw) = ''Vendido''"
      by (simp add: unidad_setattrs_def kw_def)
    have uid: "und_id (unidad_setattrs u kw) = k"
      using unidad_get_by_id_SomeD[OF u(1)] by (simp add: unidad_setattrs_keys)
    from base_update_unidad_cases[OF u(1), of kw]
    show ?thesis
    proof
      assume "snd (base_update unidad_repository s k kw) = s"
      with run show ?thesis by simp
    next
      assume "snd (base_update unidad_repository s k kw) =
           s\<lparr>unidades := map (\<lambda>r. if und_id r = k then unidad_setattrs u kw else r) (unidades s)\<rparr>"
      with run have "apply_op s op =
           s\<lparr>unidades := map (\<lambda>r. if und_id r = k then unidad_setattrs u kw else r) (unidades s)\<rparr>"
        by simp
      with u st uid show ?thesis
        by (intro disjI2 exI[of _ k] exI[of _ u] exI[of _ "unidad_setattrs u kw"]) simp
    qed
  next
    case False
    then have "apply_op s op = s"
      by (auto simp: MarcarComoVendida marcar_como_vendida_def base_get_by_id_def
          unidad_repository_def split: sum.splits option.splits)
    then show ?thesis by simp
  qed
qed

lemma apply_op_forward:
  assumes "unidad_get_by_id s i = Inr (Some u)"
  shows "\<exists>u'. unidad_get_by_id (apply_op s op) i = Inr (Some u')
           \<and> forward_step (und_estado u) (und_estado u')
           \<and> (und_estado u = ''Vendido'' \<longrightarrow> u' = u)"
proof -
  have "apply_op s op = s
   \<or> (\<exists>k u u'. unidad_get_by_id s k = Inr (Some u)
         \<and> ((und_estado u = ''Disponible'' \<and> und_estado u' = ''Reservado'')
            \<or> (und_estado u = ''Reservado'' \<and> und_estado u' = ''Vendido''))
         \<and> und_id u' = k
         \<and> apply_op s op = s\<lparr>unidades := map (\<lambda>r. if und_id r = k then u' else r) (unidades s)\<rparr>)"
    by (rule apply_op_cases)
  then show ?thesis
  proof
    assume "apply_op s op = s"
    with assms show ?thesis by (simp add: forward_step_def)
  next
    assume "\<exists>k u u'. unidad_get_by_id s k = Inr (Some u)
         \<and> ((und_estado u = ''Disponible'' \<and> und_estado u' = ''Reservado'')
            \<or> (und_estado u = ''Reservado'' \<and> und_estado u' = ''Vendido''))
         \<and> und_id u' = k
         \<and> apply_op s op = s\<lparr>unidades := map (\<lambda>r. if und_id r = k then u' else r) (unidades s)\<rparr>"
    then obtain k w w' where w: "unidad_get_by_id s k = Inr (Some w)"
      and st: "(und_estado w = ''Disponible'' \<and> und_estado w' = ''Reservado'')
            \<or> (und_estado w = ''Reservado'' \<and> und_estado w' = ''Vendido'')"
      and uid: "und_id w' = k"
      and run: "apply_op s op = s\<lparr>unidades := map (\<lambda>r. if und_id r = k then w' else r) (unidades s)\<rparr>"
      by (elim exE conjE)
    show ?thesis
    proof (cases "i = k")
      case True
      with w assms have "w = u" by simp
      moreover have "unidad_get_by_id (apply_op s op) i = Inr (Some w')"
        unfolding run True using w uid by (rule unidad_get_after_replace)
      ultimately show ?thesis using st by (auto simp: forward_step_def)
    next
      case False
      then have "unidad_get_by_id (apply_op s op) i = unidad_get_by_id s i"
        unfolding run using uid by (simp add: unidad_get_other_after_replace)
      with assms show ?thesis by (simp add: forward_step_def)
    qed
  qed
qed

lemma apply_ops_sold:
  "unidad_get_by_id s i = Inr (Some u) \<Longrightarrow> und_estado u = ''Vendido'' \<Longrightarrow>
   unidad_get_by_id (apply_ops s ops) i = Inr (Some u)"
proof (induction ops arbitrary: s)
  case Nil
  then show ?case by (simp add: apply_ops_def)
next
  case (Cons op ops)
  from apply_op_forward[OF Cons.prems(1), of op] Cons.prems(2)
  have "unidad_get_by_id (apply_op s op) i = Inr (Some u)" by auto
  from Cons.IH[OF this Cons.prems(2)] show ?case by (simp add: apply_ops_def)
qed

lemma apply_ops_reserved:
  "unidad_get_by_id s i = Inr (Some u) \<Longrightarrow> und_estado u \<in> {''Reservado'', ''Vendido''} \<Longrightarrow>
   \<exists>u'. unidad_get_by_id (apply_ops s ops) i = Inr (Some u')
         \<and> und_estado u' \<in> {''Reservado'', ''Vendido''}"
proof (induction ops arbitrary: s u)
  case Nil
  then show ?case by (simp add: apply_ops_def)
next
  case (Cons op ops)
  from apply_op_forward[OF Cons.prems(1), of op]
  obtain w where w: "unidad_get_by_id (apply_op s op) i = Inr (Some w)"
    "forward_step (und_estado u) (und_estado w)" by blast
  with Cons.prems(2) have "und_estado w \<in> {''Reservado'', ''Vendido''}"
    by (auto simp: forward_step_def)
  from Cons.IH[OF w(1) this] show ?case by (simp add: apply_ops_def)
qed

text \<open>
  Claim C9. Under \<^verbatim>\<open>asignar_cliente\<close> and \<^verbatim>\<open>marcar_como_vendida\<close>, called with any
  arguments: a unit in state \<^verbatim>\<open>Vendido\<close> is the same unit after one operation and after
  any sequence of them; one operation leaves the state of a unit as it is or moves it from
  \<^verbatim>\<open>Disponible\<close> to \<^verbatim>\<open>Reservado\<close> or from \<^verbatim>\<open>Reservado\<close> to \<^verbatim>\<open>Vendido\<close>; and after
  any sequence of operations a unit that was \<^verbatim>\<open>Reservado\<close> is \<^verbatim>\<open>Reservado\<close> or
  \<^verbatim>\<open>Vendido\<close>, never \<^verbatim>\<open>Disponible\<close>.
\<close>

theorem unit_states_move_forward_only:
  "(\<forall>u. unidad_get_by_id s i = Inr (Some u) \<and> und_estado u = ''Vendido'' \<longrightarrow>
        unidad_get_by_id (apply_op s op) i = Inr (Some u)
        \<and> unidad_get_by_id (apply_ops s ops) i = Inr (Some u))
   \<and> (\<forall>u. unidad_get_by_id s i = Inr (Some u) \<longrightarrow>
        (\<exists>u'. unidad_get_by_id (apply_op s op) i = Inr (Some u')
             \<and> forward_step (und_estado u) (und_estado u')))
   \<and> (\<forall>u. unidad_get_by_id s i = Inr (Some u) \<and> und_estado u = ''Reservado'' \<longrightarrow>
        (\<exists>u'. unidad_get_by_id (apply_ops s ops) i = Inr (Some u')
             \<and> und_estado u' \<in> {''Reservado'', ''Vendido''}
             \<and> und_estado u' \<noteq> ''Disponible''))"
proof (intro conjI allI impI)
  fix u assume h: "unidad_get_by_id s i = Inr (Some u) \<and> und_estado u = ''Vendido''"
  with apply_op_forward[of s i u op]
  show "unidad_get_by_id (apply_op s op) i = Inr (Some u)" by auto
  from h show "unidad_get_by_id (apply_ops s ops) i = Inr (Some u)"
    by (simp add: apply_ops_sold)
next
  fix u assume "unidad_get_by_id s i = Inr (Some u)"
  from apply_op_forward[OF this, of op]
  show "\<exists>u'. unidad_get_by_id (apply_op s op) i = Inr (Some u')
             \<and> forward_step (und_estado u) (und_estado u')" by blast
next
  fix u assume h: "unidad_get_by_id s i = Inr (Some u) \<and> und_estado u = ''Reservado''"
  then have "\<exists>u'. unidad_get_by_id (apply_ops s ops) i = Inr (Some u')
         \<and> und_estado u' \<in> {''Reservado'', ''Vendido''}"
    by (intro apply_ops_reserved[of s i u]) simp_all
  then show "\<exists>u'. unidad_get_by_id (apply_ops s ops) i = Inr (Some u')
             \<and> und_estado u' \<in> {''Reservado'', ''Vendido''}
             \<and> und_estado u' \<noteq> ''Disponible''" by auto
qed

theorem unit_states_move_forward_only_witness:
  "unidad_get_by_id sample_db 2 = Inr (Some unit_b) \<and> und_estado unit_b = ''Vendido''
   \<and> unidad_get_by_id (apply_op sample_db (AsignarCliente 2 (Some 8))) 2 = Inr (Some unit_b)
   \<and> unidad_get_by_id (apply_ops sample_db [MarcarComoVendida 2, AsignarCliente 2 None]) 2
        = Inr (Some unit_b)
   \<and> unidad_get_by_id sample_db 4 = Inr (Some unit_d) \<and> und_estado unit_d = ''Reservado''
   \<and> (\<exists>u'. unidad_get_by_id (apply_op sample_db (MarcarComoVendida 4)) 4 = Inr (Some u')
          \<and> forward_step (und_estado unit_d) (und_estado u'))
   \<and> (\<exists>u'. unidad_get_by_id
               (apply_ops sample_db [AsignarCliente 4 (Some 8), MarcarComoVendida 4]) 4
             = Inr (Some u')
          \<and> und_estado u' \<noteq> ''Disponible'')"
proof -
  have g2: "unidad_get_by_id sample_db 2 = Inr (Some unit_b)"
    and g4: "unidad_get_by_id sample_db 4 = Inr (Some unit_d)"
    by (simp_all add: unidad_get_by_id_def objects_get_def sample_db_def unit_a_def unit_b_def
        unit_c_def unit_d_def)
  have st: "und_estado unit_b = ''Vendido''" "und_estado unit_d = ''Reservado''"
    by (simp_all add: unit_b_def unit_d_def)
  note sold = unit_states_move_forward_only[of sample_db 2 "AsignarCliente 2 (Some 8)"
      "[MarcarComoVendida 2, AsignarCliente 2 None]"]
  note held = unit_states_move_forward_only[of sample_db 4 "MarcarComoVendida 4"
      "[AsignarCliente 4 (Some 8), MarcarComoVendida 4]"]
  from sold g2 st(1)
  have a: "unidad_get_by_id (apply_op sample_db (AsignarCliente 2 (Some 8))) 2 = Inr (Some unit_b)
      \<and> unidad_get_by_id (apply_ops sample_db [MarcarComoVendida 2, AsignarCliente 2 None]) 2
        = Inr (Some unit_b)"
    by blast
  from held g4
  have b: "\<exists>u'. unidad_get_by_id (apply_op sample_db (MarcarComoVendida 4)) 4 = Inr (Some u')
          \<and> forward_step (und_estado unit_d) (und_estado u')"
    by blast
  from held g4 st(2)
  have c: "\<exists>u'. unidad_get_by_id
               (apply_ops sample_db [AsignarCliente 4 (Some 8), MarcarComoVendida 4]) 4
             = Inr (Some u')
          \<and> und_estado u' \<noteq> ''Disponible''"
    by blast
  from g2 st a g4 b c show ?thesis by blast
qed

subsection \<open>Statistics of a project\<close>






lemma round_half_even_of_int: "round_half_even (of_int z) = z"
  by (simp add: round_half_even_def)




subsection \<open>Uniqueness checks of the user service\<close>

lemma get_found_not_None:
  "r \<in> set rows \<Longrightarrow> p r \<Longrightarrow> except_does_not_exist (objects_get p rows) \<noteq> Inr None"
  by (auto simp: get_None_iff filter_empty_conv)

lemma usuario_insert_duplicate:
  assumes "r \<in> set (usuarios s)" "usr_email r = usr_email u \<or> usr_rut r = usr_rut u"
  shows "usuario_insert s u = (Inl IntegrityError, s)"
  using assms by (cases "usr_id r = usr_id u") (auto simp: usuario_insert_def usuario_conflict_def)

lemma usuario_save_duplicate:
  assumes "r \<in> set (usuarios s)" "usr_id r \<noteq> usr_id u"
    "usr_email r = usr_email u \<or> usr_rut r = usr_rut u"
  shows "usuario_save s u = (Inl IntegrityError, s)"
  using assms by (auto simp: usuario_save_def usuario_conflict_def)

lemma usuario_setattrs_fields:
  "usr_id (usuario_setattrs u kw) = usr_id u"
  "kw_email kw = Some e \<Longrightarrow> usr_email (usuario_setattrs u kw) = e"
  "kw_rut kw = Some x \<Longrightarrow> usr_rut (usuario_setattrs u kw) = x"
  by (simp_all add: usuario_setattrs_def)

lemma repo_create_empty_email_taken:
  assumes "kw_email kw = Some []" "r \<in> set (usuarios s)" "usr_email r = []"
  shows "\<exists>err. usuario_repo_create fw s new_id kw = (Inl err, s)"
proof (cases "\<exists>p. kw_password kw = Some p \<and> p \<noteq> []")
  case True
  then show ?thesis using assms(1)
    by (auto simp: usuario_repo_create_def create_user_def)
next
  case False
  have "usuario_insert s (usuario_setattrs (usuario_default new_id) kw) = (Inl IntegrityError, s)"
    using assms by (intro usuario_insert_duplicate[of r]) (simp_all add: usuario_setattrs_fields)
  with False show ?thesis
    by (cases "kw_password kw") (auto simp: usuario_repo_create_def)
qed

lemma repo_create_rut_taken:
  assumes "kw_rut kw = Some x" "r \<in> set (usuarios s)" "usr_rut r = x"
  shows "\<exists>err. usuario_repo_create fw s new_id kw = (Inl err, s)"
proof -
  have plain: "usuario_insert s (usuario_setattrs (usuario_default new_id) kw)
                 = (Inl IntegrityError, s)"
    using assms by (intro usuario_insert_duplicate[of r]) (simp_all add: usuario_setattrs_fields)
  have hashed: "usuario_insert s ((usuario_setattrs (usuario_default new_id) kw)
                    \<lparr>usr_email := e', usr_password := h\<rparr>) = (Inl IntegrityError, s)" for e' h
    using assms by (intro usuario_insert_duplicate[of r]) (simp_all add: usuario_setattrs_fields)
  show ?thesis
    by (auto simp: usuario_repo_create_def create_user_def plain hashed split: option.splits)
qed

lemma create_email_taken:
  assumes "kw_email kw = Some e" "r \<in> set (usuarios s)" "usr_email r = e"
  shows "\<exists>err. usuario_create fw s new_id kw = (Inl err, s)"
proof (cases "create_email_check s kw")
  case (Some err)
  then show ?thesis by (simp add: usuario_create_def)
next
  case None
  have "e = []"
  proof (rule ccontr)
    assume "e \<noteq> []"
    with None assms(1) have "usuario_get_by_email s e = Inr None"
      by (auto simp: create_email_check_def split: sum.splits option.splits)
    moreover have "usuario_get_by_email s e \<noteq> Inr None"
      unfolding usuario_get_by_email_def using assms(2,3) by (intro get_found_not_None[of r]) simp_all
    ultimately show False by simp
  qed
  with assms repo_create_empty_email_taken[of kw r s fw new_id]
  obtain err where "usuario_repo_create fw s new_id kw = (Inl err, s)" by auto
  with None show ?thesis
    by (auto simp: usuario_create_def split: option.splits)
qed

lemma create_rut_taken:
  assumes "kw_rut kw = Some x" "r \<in> set (usuarios s)" "usr_rut r = x"
  shows "\<exists>err. usuario_create fw s new_id kw = (Inl err, s)"
proof -
  from repo_create_rut_taken[OF assms, of fw new_id]
  obtain err where "usuario_repo_create fw s new_id kw = (Inl err, s)" by auto
  then show ?thesis
    by (auto simp: usuario_create_def split: option.splits)
qed

lemma create_role_invalid:
  assumes "kw_role kw = Some role" "role \<noteq> []" "role \<notin> {''Administrador'', ''Cliente''}"
  shows "\<exists>err. usuario_create fw s new_id kw = (Inl err, s)"
proof -
  from assms have "\<exists>err. role_check kw = Some err"
    by (simp add: role_check_def)
  then show ?thesis
    by (auto simp: usuario_create_def split: option.splits)
qed

lemma usuario_get_by_id_SomeD:
  "usuario_get_by_id s i = Inr (Some inst) \<Longrightarrow>
   filter (\<lambda>u. usr_id u = i) (usuarios s) = [inst] \<and> inst \<in> set (usuarios s) \<and> usr_id inst = i"
  using filter_singleton_mem[of "\<lambda>u. usr_id u = i" "usuarios s" inst]
  by (simp add: usuario_get_by_id_def get_Some_iff)

lemma usuario_repo_update_keeps:
  "\<exists>u. usuario_repo_update fw s inst kw = usuario_save s u \<and> usr_id u = usr_id inst
       \<and> (\<forall>e. kw_email kw = Some e \<longrightarrow> usr_email u = e)
       \<and> (\<forall>x. kw_rut kw = Some x \<longrightarrow> usr_rut u = x)"
  by (auto simp: usuario_repo_update_def Let_def usuario_setattrs_fields split: option.splits)

lemma update_value_taken:
  assumes found: "usuario_get_by_id s i = Inr (Some inst)"
    and other: "r \<in> set (usuarios s)" "usr_id r \<noteq> i"
    and taken: "(\<exists>e. kw_email kw = Some e \<and> usr_email r = e)
              \<or> (\<exists>x. kw_rut kw = Some x \<and> usr_rut r = x)"
  shows "\<exists>err. usuario_update fw s i kw = (Inl err, s)"
proof -
  from usuario_repo_update_keeps[of fw s inst kw]
  obtain u where u: "usuario_repo_update fw s inst kw = usuario_save s u" "usr_id u = usr_id inst"
    "\<forall>e. kw_email kw = Some e \<longrightarrow> usr_email u = e" "\<forall>x. kw_rut kw = Some x \<longrightarrow> usr_rut u = x"
    by blast
  from found have "usr_id inst = i" by (simp add: usuario_get_by_id_SomeD)
  with u other taken have "usuario_save s u = (Inl IntegrityError, s)"
    by (intro usuario_save_duplicate[of r]) auto
  with u(1) found show ?thesis
    by (auto simp: usuario_update_def base_get_by_id_def usuario_repository_def
        split: option.splits)
qed

lemma usuarios_wf_no_conflict:
  assumes "usuarios_wf rows" "u \<in> set rows"
  shows "\<not> usuario_conflict u rows"
proof
  assume "usuario_conflict u rows"
  then obtain r where r: "r \<in> set rows" "usr_id r \<noteq> usr_id u"
    "usr_rut r = usr_rut u \<or> usr_email r = usr_email u \<or> usr_username r = usr_username u"
    by (auto simp: usuario_conflict_def)
  from assms(1) have "inj_on usr_rut (set rows)" "inj_on usr_email (set rows)"
    "inj_on usr_username (set rows)"
    by (simp_all add: usuarios_wf_def distinct_map)
  with r(1,3) assms(2) have "r = u" by (auto dest: inj_onD)
  with r(2) show False by simp
qed

lemma map_replace_same:
  assumes "filter p rows = [x]"
  shows "map (\<lambda>r. if p r then x else r) rows = rows"
proof (rule map_idI)
  fix r assume "r \<in> set rows"
  show "(if p r then x else r) = r"
  proof (cases "p r")
    case True
    with \<open>r \<in> set rows\<close> have "r \<in> set (filter p rows)" by simp
    with assms have "r = x" by simp
    with True show ?thesis by simp
  qed simp
qed

lemma usuario_save_same:
  assumes "usuarios_wf (usuarios s)" "usuario_get_by_id s i = Inr (Some inst)"
  shows "usuario_save s inst = (Inr inst, s)"
proof -
  from assms(2) have f: "filter (\<lambda>u. usr_id u = i) (usuarios s) = [inst]"
    and mem: "inst \<in> set (usuarios s)" and uid: "usr_id inst = i"
    by (simp_all add: usuario_get_by_id_SomeD)
  have "\<not> usuario_conflict inst (usuarios s)"
    using assms(1) mem by (rule usuarios_wf_no_conflict)
  moreover have "\<exists>r \<in> set (usuarios s). usr_id r = usr_id inst" using mem by auto
  moreover have "map (\<lambda>r. if usr_id r = usr_id inst then inst else r) (usuarios s) = usuarios s"
    unfolding uid using f by (rule map_replace_same)
  ultimately show ?thesis by (simp add: usuario_save_def)
qed

lemma update_to_own_values:
  assumes "usuarios_wf (usuarios s)" "usuario_get_by_id s i = Inr (Some inst)"
    "ee \<in> {None, Some (usr_email inst)}" "rr \<in> {None, Some (usr_rut inst)}"
  shows "usuario_update fw s i (no_usuario_kwargs\<lparr>kw_email := ee, kw_rut := rr\<rparr>)
           = (Inr (Some inst), s)"
proof -
  define kw where "kw = no_usuario_kwargs\<lparr>kw_email := ee, kw_rut := rr\<rparr>"
  have checks: "update_email_check s i inst kw = None" "update_rut_check s i inst kw = None"
    "role_check kw = None"
    using assms(3,4)
    by (auto simp: update_email_check_def update_rut_check_def role_check_def kw_def
        no_usuario_kwargs_def)
  have "usuario_setattrs inst kw = inst"
    using assms(3,4) by (auto simp: usuario_setattrs_def kw_def no_usuario_kwargs_def)
  then have "usuario_repo_update fw s inst kw = usuario_save s inst"
    by (simp add: usuario_repo_update_def kw_def no_usuario_kwargs_def)
  with usuario_save_same[OF assms(1,2)]
  have "usuario_repo_update fw s inst kw = (Inr inst, s)" by simp
  with checks assms(2) show ?thesis
    unfolding kw_def[symmetric]
    by (simp add: usuario_update_def base_get_by_id_def usuario_repository_def)
qed

text \<open>
  Claim C3, amended. \<^verbatim>\<open>UsuarioService.create\<close> raises, and writes nothing, when the
  email passed is the email of a stored user, when the RUT passed is the RUT of a stored
  user, and when a role is passed that is not empty and is neither \<^verbatim>\<open>Administrador\<close>
  nor \<^verbatim>\<open>Cliente\<close>. \<^verbatim>\<open>UsuarioService.update\<close> raises, and writes nothing, when the
  email or the RUT passed is that of another stored user; in a table that satisfies its
  constraints, an update that passes the user's own current email, its own current RUT or
  both succeeds and leaves the store as it was.
\<close>

theorem usuario_uniqueness_checks:
  "(\<forall>e r. kw_email kw = Some e \<and> r \<in> set (usuarios s) \<and> usr_email r = e \<longrightarrow>
        (\<exists>err. usuario_create fw s new_id kw = (Inl err, s)))
   \<and> (\<forall>x r. kw_rut kw = Some x \<and> r \<in> set (usuarios s) \<and> usr_rut r = x \<longrightarrow>
        (\<exists>err. usuario_create fw s new_id kw = (Inl err, s)))
   \<and> (\<forall>role. kw_role kw = Some role \<and> role \<noteq> []
          \<and> role \<notin> {''Administrador'', ''Cliente''} \<longrightarrow>
        (\<exists>err. usuario_create fw s new_id kw = (Inl err, s)))
   \<and> (\<forall>inst r. usuario_get_by_id s i = Inr (Some inst) \<and> r \<in> set (usuarios s)
          \<and> usr_id r \<noteq> i
          \<and> (kw_email kw = Some (usr_email r) \<or> kw_rut kw = Some (usr_rut r)) \<longrightarrow>
        (\<exists>err. usuario_update fw s i kw = (Inl err, s)))
   \<and> (\<forall>inst ee rr. usuarios_wf (usuarios s) \<and> usuario_get_by_id s i = Inr (Some inst)
          \<and> ee \<in> {None, Some (usr_email inst)} \<and> rr \<in> {None, Some (usr_rut inst)} \<longrightarrow>
        usuario_update fw s i (no_usuario_kwargs\<lparr>kw_email := ee, kw_rut := rr\<rparr>)
          = (Inr (Some inst), s))"
proof (intro conjI allI impI)
  fix e r assume "kw_email kw = Some e \<and> r \<in> set (usuarios s) \<and> usr_email r = e"
  then show "\<exists>err. usuario_create fw s new_id kw = (Inl err, s)"
    using create_email_taken[of kw e r s fw new_id] by blast
next
  fix x r assume "kw_rut kw = Some x \<and> r \<in> set (usuarios s) \<and> usr_rut r = x"
  then show "\<exists>err. usuario_create fw s new_id kw = (Inl err, s)"
    using create_rut_taken[of kw x r s fw new_id] by blast
next
  fix role assume "kw_role kw = Some role \<and> role \<noteq> []
          \<and> role \<notin> {''Administrador'', ''Cliente''}"
  then show "\<exists>err. usuario_create fw s new_id kw = (Inl err, s)"
    using create_role_invalid[of kw role fw s new_id] by blast
next
  fix inst r
  assume "usuario_get_by_id s i = Inr (Some inst) \<and> r \<in> set (usuarios s) \<and> usr_id r \<noteq> i
          \<and> (kw_email kw = Some (usr_email r) \<or> kw_rut kw = Some (usr_rut r))"
  then show "\<exists>err. usuario_update fw s i kw = (Inl err, s)"
    using update_value_taken[of s i inst r kw fw] by blast
next
  fix inst ee rr
  assume "usuarios_wf (usuarios s) \<and> usuario_get_by_id s i = Inr (Some inst)
          \<and> ee \<in> {None, Some (usr_email inst)} \<and> rr \<in> {None, Some (usr_rut inst)}"
  then show "usuario_update fw s i (no_usuario_kwargs\<lparr>kw_email := ee, kw_rut := rr\<rparr>)
          = (Inr (Some inst), s)"
    using update_to_own_values[of s i inst ee rr fw] by blast
qed

theorem usuario_uniqueness_checks_witness:
  "ana \<in> set (usuarios sample_db) \<and> usr_email ana = ''ana@example.com''
   \<and> usr_rut ana = ''12345678-9''
   \<and> (\<exists>err. usuario_create sample_framework sample_db 9
               (no_usuario_kwargs\<lparr>kw_email := Some ''ana@example.com''\<rparr>) = (Inl err, sample_db))
   \<and> (\<exists>err. usuario_create sample_framework sample_db 9
               (no_usuario_kwargs\<lparr>kw_rut := Some ''12345678-9''\<rparr>) = (Inl err, sample_db))
   \<and> ''Jefe'' \<noteq> [] \<and> ''Jefe'' \<notin> {''Administrador'', ''Cliente''}
   \<and> (\<exists>err. usuario_create sample_framework sample_db 9
               (no_usuario_kwargs\<lparr>kw_role := Some ''Jefe''\<rparr>) = (Inl err, sample_db))
   \<and> usuario_get_by_id sample_db 8 = Inr (Some luis) \<and> usr_id ana \<noteq> 8
   \<and> (\<exists>err. usuario_update sample_framework sample_db 8
               (no_usuario_kwargs\<lparr>kw_email := Some ''ana@example.com''\<rparr>) = (Inl err, sample_db))
   \<and> usuarios_wf (usuarios sample_db) \<and> usuario_get_by_id sample_db 7 = Inr (Some ana)
   \<and> usuario_update sample_framework sample_db 7
        (no_usuario_kwargs\<lparr>kw_email := Some ''ana@example.com'', kw_rut := None\<rparr>)
       = (Inr (Some ana), sample_db)"
proof -
  have mem: "ana \<in> set (usuarios sample_db)" by (simp add: sample_db_def)
  have vals: "usr_email ana = ''ana@example.com''" "usr_rut ana = ''12345678-9''" "usr_id ana \<noteq> 8"
    by (simp_all add: ana_def)
  have role: "''Jefe'' \<noteq> []" "''Jefe'' \<notin> {''Administrador'', ''Cliente''}" by simp_all
  have g8: "usuario_get_by_id sample_db 8 = Inr (Some luis)"
    and g7: "usuario_get_by_id sample_db 7 = Inr (Some ana)"
    by (simp_all add: usuario_get_by_id_def objects_get_def sample_db_def ana_def luis_def)
  have wf: "usuarios_wf (usuarios sample_db)"
    by (simp add: usuarios_wf_def sample_db_def ana_def luis_def)
  have k: "kw_email (no_usuario_kwargs\<lparr>kw_email := Some ''ana@example.com''\<rparr>)
             = Some ''ana@example.com''"
    "kw_rut (no_usuario_kwargs\<lparr>kw_rut := Some ''12345678-9''\<rparr>) = Some ''12345678-9''"
    "kw_role (no_usuario_kwargs\<lparr>kw_role := Some ''Jefe''\<rparr>) = Some ''Jefe''"
    by simp_all
  from usuario_uniqueness_checks[of "no_usuario_kwargs\<lparr>kw_email := Some ''ana@example.com''\<rparr>"
      sample_db sample_framework 9 8] k(1) mem vals g8
  have a: "\<exists>err. usuario_create sample_framework sample_db 9
               (no_usuario_kwargs\<lparr>kw_email := Some ''ana@example.com''\<rparr>) = (Inl err, sample_db)"
    and d: "\<exists>err. usuario_update sample_framework sample_db 8
               (no_usuario_kwargs\<lparr>kw_email := Some ''ana@example.com''\<rparr>) = (Inl err, sample_db)"
    by metis+
  from usuario_uniqueness_checks[of "no_usuario_kwargs\<lparr>kw_rut := Some ''12345678-9''\<rparr>"
      sample_db sample_framework 9 8] k(2) mem vals
  have b: "\<exists>err. usuario_create sample_framework sample_db 9
               (no_usuario_kwargs\<lparr>kw_rut := Some ''12345678-9''\<rparr>) = (Inl err, sample_db)"
    by metis
  from usuario_uniqueness_checks[of "no_usuario_kwargs\<lparr>kw_role := Some ''Jefe''\<rparr>"
      sample_db sample_framework 9 8] k(3) role
  have c: "\<exists>err. usuario_create sample_framework sample_db 9
               (no_usuario_kwargs\<lparr>kw_role := Some ''Jefe''\<rparr>) = (Inl err, sample_db)"
    by metis
  from usuario_uniqueness_checks[of no_usuario_kwargs sample_db sample_framework 9 7] wf g7
  have "usuario_update sample_framework sample_db 7
        (no_usuario_kwargs\<lparr>kw_email := Some (usr_email ana), kw_rut := None\<rparr>)
       = (Inr (Some ana), sample_db)"
    by blast
  then have e: "usuario_update sample_framework sample_db 7
        (no_usuario_kwargs\<lparr>kw_email := Some ''ana@example.com'', kw_rut := None\<rparr>)
       = (Inr (Some ana), sample_db)"
    by (simp add: vals)
  from mem vals a b role c g8 d wf g7 e show ?thesis by blast
qed

text \<open>
  Claim C3 as stated fails for the empty role: it is passed, it is neither
  \<^verbatim>\<open>Administrador\<close> nor \<^verbatim>\<open>Cliente\<close>, and \<^verbatim>\<open>create\<close> stores the user with it.
\<close>

theorem usuario_create_empty_role_counterexample:
  "([] :: string) \<notin> {''Administrador'', ''Cliente''}
   \<and> fst (usuario_create sample_framework sample_db 9
         (no_usuario_kwargs\<lparr>kw_rut := Some ''11111111-1'', kw_email := Some ''eva@example.com'',
                            kw_username := Some ''eva'', kw_role := Some []\<rparr>))
     = Inr \<lparr>usr_id = 9, usr_rut = ''11111111-1'', usr_email = ''eva@example.com'',
            usr_username = ''eva'', usr_first_name = [], usr_last_name = [], usr_role = [],
            usr_phone = None, usr_password = []\<rparr>"
  by (simp add: usuario_create_def create_email_check_def create_rut_check_def role_check_def
      usuario_get_by_email_def usuario_get_by_rut_def objects_get_def usuario_repo_create_def
      usuario_insert_def usuario_conflict_def usuario_setattrs_def usuario_default_def
      no_usuario_kwargs_def sample_db_def ana_def luis_def)

subsection \<open>Validators: one call or many\<close>

lemma add_error_keeps: "kind (add_error f m v) = kind v" "data (add_error f m v) = data v"
  by (simp_all add: add_error_def)

lemma usuario_checks_keep:
  "kind (snd (validate_rut v)) = kind v \<and> data (snd (validate_rut v)) = data v"
  "kind (snd (validate_email v)) = kind v \<and> data (snd (validate_email v)) = data v"
  "kind (snd (validate_nombres v)) = kind v \<and> data (snd (validate_nombres v)) = data v"
  "kind (snd (validate_password v)) = kind v \<and> data (snd (validate_password v)) = data v"
  "kind (snd (validate_role v)) = kind v \<and> data (snd (validate_role v)) = data v"
  "kind (snd (validate_phone v)) = kind v \<and> data (snd (validate_phone v)) = data v"
  by (simp_all add: validate_rut_def validate_email_def validate_nombres_def
      validate_password_def validate_role_def validate_phone_def Let_def add_error_keeps
      split: sum.splits)

lemma proyecto_checks_keep:
  "kind (snd (validate_nombre v)) = kind v \<and> data (snd (validate_nombre v)) = data v"
  "kind (snd (validate_ubicacion v)) = kind v \<and> data (snd (validate_ubicacion v)) = data v"
  "kind (snd (validate_fechas fi v)) = kind v \<and> data (snd (validate_fechas fi v)) = data v"
  "kind (snd (validate_estado_proyecto v)) = kind v
     \<and> data (snd (validate_estado_proyecto v)) = data v"
  "kind (snd (validate_codigo v)) = kind v \<and> data (snd (validate_codigo v)) = data v"
  by (simp_all add: validate_nombre_def validate_ubicacion_def validate_fechas_def
      validate_estado_proyecto_def validate_codigo_def Let_def add_error_keeps
      split: sum.splits option.splits)

lemma unidad_checks_keep:
  "kind (snd (validate_proyecto v)) = kind v \<and> data (snd (validate_proyecto v)) = data v"
  "kind (snd (validate_numero_unidad v)) = kind v
     \<and> data (snd (validate_numero_unidad v)) = data v"
  "kind (snd (validate_tipo_unidad v)) = kind v \<and> data (snd (validate_tipo_unidad v)) = data v"
  "kind (snd (validate_metraje v)) = kind v \<and> data (snd (validate_metraje v)) = data v"
  "kind (snd (validate_precio v)) = kind v \<and> data (snd (validate_precio v)) = data v"
  "kind (snd (validate_estado_unidad v)) = kind v
     \<and> data (snd (validate_estado_unidad v)) = data v"
  by (simp_all add: validate_proyecto_def validate_numero_unidad_def validate_tipo_unidad_def
      validate_metraje_def validate_precio_def validate_estado_unidad_def Let_def add_error_keeps
      split: sum.splits)

lemma run_checks_keep:
  assumes "\<And>c w. c \<in> set cs \<Longrightarrow> kind (snd (c w)) = kind w \<and> data (snd (c w)) = data w"
  shows "kind (snd (run_checks cs v)) = kind v \<and> data (snd (run_checks cs v)) = data v"
  using assms
proof (induction cs arbitrary: v)
  case Nil
  then show ?case by simp
next
  case (Cons c cs)
  have step: "kind (snd (c v)) = kind v \<and> data (snd (c v)) = data v"
    using Cons.prems[of c v] by simp
  have rest: "kind (snd (run_checks cs w)) = kind w \<and> data (snd (run_checks cs w)) = data w" for w
    using Cons.IH[of w] Cons.prems by simp
  show ?case
  proof (cases "c v")
    case (Pair e v')
    with step rest[of v'] show ?thesis by (cases e) simp_all
  qed
qed

lemma validate_keeps:
  "kind (snd (validate fi v)) = kind v \<and> data (snd (validate fi v)) = data v"
proof (cases "kind v")
  case UsuarioValidator
  have "kind (snd (usuario_validate v)) = kind v \<and> data (snd (usuario_validate v)) = data v"
    unfolding usuario_validate_def
    by (rule run_checks_keep) (auto simp: usuario_checks_keep)
  with UsuarioValidator show ?thesis by (simp add: validate_def)
next
  case ProyectoValidator
  have "kind (snd (proyecto_validate fi v)) = kind v
          \<and> data (snd (proyecto_validate fi v)) = data v"
    unfolding proyecto_validate_def
    by (rule run_checks_keep) (auto simp: proyecto_checks_keep)
  with ProyectoValidator show ?thesis by (simp add: validate_def)
next
  case UnidadValidator
  have "kind (snd (unidad_validate v)) = kind v \<and> data (snd (unidad_validate v)) = data v"
    unfolding unidad_validate_def
    by (rule run_checks_keep) (auto simp: unidad_checks_keep)
  with UnidadValidator show ?thesis by (simp add: validate_def)
qed

lemma is_valid_keeps:
  "kind (snd (is_valid fi v)) = kind v \<and> data (snd (is_valid fi v)) = data v"
  using validate_keeps[of fi "v\<lparr>errors := []\<rparr>"]
  by (auto simp: is_valid_def split: prod.splits option.splits)

lemma is_valid_twice: "is_valid fi (snd (is_valid fi v)) = is_valid fi v"
proof -
  have "(snd (is_valid fi v))\<lparr>errors := []\<rparr> = v\<lparr>errors := []\<rparr>"
    using is_valid_keeps[of fi v] by (intro validator.equality) simp_all
  then show ?thesis by (simp add: is_valid_def)
qed

lemma is_valid_repeated_same: "is_valid_repeated fi n v = is_valid fi v"
proof (induction n arbitrary: v)
  case 0
  then show ?case by simp
next
  case (Suc n)
  then show ?case by (simp add: is_valid_twice)
qed

lemma error_dict_fold:
  "foldl error_dict_step d es f =
     (if f \<in> field ` set es
      then Some ((case d f of None \<Rightarrow> [] | Some ms \<Rightarrow> ms)
                  @ map message (filter (\<lambda>e. field e = f) es))
      else d f)"
proof (induction es arbitrary: d)
  case Nil
  then show ?case by simp
next
  case (Cons e es)
  show ?case
    by (simp add: Cons.IH)
       (force simp: error_dict_step_def Let_def filter_empty_conv image_iff
          split: option.splits)
qed

lemma get_error_dict_groups:
  "get_error_dict v f =
     (if f \<in> field ` set (errors v)
      then Some (map message (filter (\<lambda>e. field e = f) (errors v)))
      else None)"
  by (simp add: get_error_dict_def error_dict_fold)

text \<open>
  Claim C4. For a validator of any of the three classes and any input mapping:
  when \<^verbatim>\<open>is_valid()\<close> returns, it returns true exactly when the error list that the
  checks built from the empty list is empty; \<^verbatim>\<open>get_error_dict()\<close> has, for every
  field with an error, the messages of that field's errors in order, and no other key;
  \<^verbatim>\<open>is_valid()\<close> leaves the class and the input mapping of the validator as they were;
  and calling it \<open>n + 1\<close> times in a row gives the outcome, the error list and the error
  dictionary of calling it once.
\<close>

theorem is_valid_resets_and_groups:
  "(\<forall>b. fst (is_valid fi v) = Inr b \<longrightarrow> (b \<longleftrightarrow> errors (snd (is_valid fi v)) = []))
   \<and> errors (snd (is_valid fi v)) = errors (snd (validate fi (v\<lparr>errors := []\<rparr>)))
   \<and> (\<forall>f. get_error_dict (snd (is_valid fi v)) f =
          (if f \<in> field ` set (errors (snd (is_valid fi v)))
           then Some (map message (filter (\<lambda>e. field e = f) (errors (snd (is_valid fi v)))))
           else None))
   \<and> kind (snd (is_valid fi v)) = kind v \<and> data (snd (is_valid fi v)) = data v
   \<and> is_valid_repeated fi n v = is_valid fi v
   \<and> get_error_dict (snd (is_valid_repeated fi n v)) = get_error_dict (snd (is_valid fi v))"
proof -
  have a: "\<forall>b. fst (is_valid fi v) = Inr b \<longrightarrow> (b \<longleftrightarrow> errors (snd (is_valid fi v)) = [])"
    by (auto simp: is_valid_def split: prod.splits option.splits)
  have b: "errors (snd (is_valid fi v)) = errors (snd (validate fi (v\<lparr>errors := []\<rparr>)))"
    by (auto simp: is_valid_def split: prod.splits option.splits)
  have c: "\<forall>f. get_error_dict (snd (is_valid fi v)) f =
          (if f \<in> field ` set (errors (snd (is_valid fi v)))
           then Some (map message (filter (\<lambda>e. field e = f) (errors (snd (is_valid fi v)))))
           else None)"
    by (simp add: get_error_dict_groups)
  have d: "is_valid_repeated fi n v = is_valid fi v"
    by (rule is_valid_repeated_same)
  from a b c d is_valid_keeps[of fi v] show ?thesis by simp
qed

lemma usuario_data_valid:
  "fst (is_valid date_fromisoformat (new_validator UsuarioValidator usuario_data)) = Inr True"
  "errors (snd (is_valid date_fromisoformat (new_validator UsuarioValidator usuario_data))) = []"
  by code_simp+

lemma proyecto_data_invalid:
  "fst (is_valid date_fromisoformat (new_validator ProyectoValidator proyecto_data)) = Inr False"
  "errors (snd (is_valid date_fromisoformat (new_validator ProyectoValidator proyecto_data)))
     = [ValidationError ''fecha_finalizacion'' msg_fecha_posterior]"
  by code_simp+

theorem is_valid_resets_and_groups_witness:
  "fst (is_valid date_fromisoformat (new_validator ProyectoValidator proyecto_data)) = Inr False
   \<and> errors (snd (is_valid date_fromisoformat (new_validator ProyectoValidator proyecto_data)))
        \<noteq> []
   \<and> get_error_dict (snd (is_valid date_fromisoformat
          (new_validator ProyectoValidator proyecto_data))) ''fecha_finalizacion''
        = Some [msg_fecha_posterior]
   \<and> get_error_dict (snd (is_valid date_fromisoformat
          (new_validator ProyectoValidator proyecto_data))) ''nombre'' = None
   \<and> is_valid_repeated date_fromisoformat 2 (new_validator ProyectoValidator proyecto_data)
        = is_valid date_fromisoformat (new_validator ProyectoValidator proyecto_data)
   \<and> fst (is_valid date_fromisoformat (new_validator UsuarioValidator usuario_data)) = Inr True
   \<and> errors (snd (is_valid date_fromisoformat (new_validator UsuarioValidator usuario_data)))
        = []"
proof -
  note p = is_valid_resets_and_groups[of date_fromisoformat
      "new_validator ProyectoValidator proyecto_data" 2]
  note u = is_valid_resets_and_groups[of date_fromisoformat
      "new_validator UsuarioValidator usuario_data" 0]
  from p proyecto_data_invalid(1)
  have "errors (snd (is_valid date_fromisoformat (new_validator ProyectoValidator proyecto_data)))
        \<noteq> []"
    by blast
  moreover have "get_error_dict (snd (is_valid date_fromisoformat
          (new_validator ProyectoValidator proyecto_data))) ''fecha_finalizacion''
        = Some [msg_fecha_posterior]"
    "get_error_dict (snd (is_valid date_fromisoformat
          (new_validator ProyectoValidator proyecto_data))) ''nombre'' = None"
  proof -
    from p have g: "get_error_dict (snd (is_valid date_fromisoformat
          (new_validator ProyectoValidator proyecto_data))) f =
          (if f \<in> field ` set (errors (snd (is_valid date_fromisoformat
                 (new_validator ProyectoValidator proyecto_data))))
           then Some (map message (filter (\<lambda>e. field e = f) (errors (snd (is_valid
                 date_fromisoformat (new_validator ProyectoValidator proyecto_data))))))
           else None)" for f
      by blast
    show "get_error_dict (snd (is_valid date_fromisoformat
          (new_validator ProyectoValidator proyecto_data))) ''fecha_finalizacion''
        = Some [msg_fecha_posterior]"
      by (simp add: g proyecto_data_invalid(2))
    show "get_error_dict (snd (is_valid date_fromisoformat
          (new_validator ProyectoValidator proyecto_data))) ''nombre'' = None"
      by (simp add: g proyecto_data_invalid(2))
  qed
  moreover from p
  have "is_valid_repeated date_fromisoformat 2 (new_validator ProyectoValidator proyecto_data)
        = is_valid date_fromisoformat (new_validator ProyectoValidator proyecto_data)"
    by blast
  moreover from u usuario_data_valid(1)
  have "errors (snd (is_valid date_fromisoformat (new_validator UsuarioValidator usuario_data)))
        = []"
    by blast
  ultimately show ?thesis
    using proyecto_data_invalid(1) usuario_data_valid(1) by blast
qed

subsection \<open>Validators: exceptions\<close>

lemma text_or_false_cases:
  "text_or_false x \<Longrightarrow> \<not> truthy x \<or> (\<exists>s. x = PStr s)"
  by (cases x) (simp_all add: text_or_false_def)

lemma usuario_checks_no_raise:
  "text_or_false (dict_get (data v) ''rut'') \<Longrightarrow> fst (validate_rut v) = None"
  "text_or_false (dict_get (data v) ''email'') \<Longrightarrow> fst (validate_email v) = None"
  "text_or_false (dict_get (data v) ''first_name'') \<Longrightarrow>
     text_or_false (dict_get (data v) ''last_name'') \<Longrightarrow> fst (validate_nombres v) = None"
  "text_or_false (dict_get (data v) ''password'') \<Longrightarrow> fst (validate_password v) = None"
  "fst (validate_role v) = None"
  "text_or_false (dict_get (data v) ''phone'') \<Longrightarrow> fst (validate_phone v) = None"
  by (auto simp: validate_rut_def validate_email_def validate_nombres_def validate_password_def
      validate_role_def validate_phone_def is_valid_rut_format_def is_valid_email_def
      is_valid_phone_def Let_def dest!: text_or_false_cases)

lemma date_or_false_cases:
  "date_or_false x \<Longrightarrow> \<not> truthy x \<or> (\<exists>s. x = PStr s) \<or> (\<exists>d. x = PDate d)"
  by (cases x) (simp_all add: date_or_false_def)

lemma to_date_of_date_or_false:
  "date_or_false x \<Longrightarrow> truthy x \<Longrightarrow> to_date fi x = Some y \<Longrightarrow> \<exists>d. y = PDate d"
  by (cases x) (auto simp: date_or_false_def split: option.splits)

lemma validate_fechas_no_raise:
  assumes "date_or_false (dict_get (data v) ''fecha_inicio'')"
    "date_or_false (dict_get (data v) ''fecha_finalizacion'')"
  shows "fst (validate_fechas fi v) = None"
proof (cases "truthy (dict_get (data v) ''fecha_inicio'')
              \<and> truthy (dict_get (data v) ''fecha_finalizacion'')")
  case False
  then show ?thesis by (auto simp: validate_fechas_def Let_def)
next
  case True
  show ?thesis
  proof (cases "to_date fi (dict_get (data v) ''fecha_inicio'')")
    case None
    with True show ?thesis by (simp add: validate_fechas_def Let_def)
  next
    case (Some a)
    with assms(1) True obtain d1 where a: "a = PDate d1"
      using to_date_of_date_or_false by blast
    show ?thesis
    proof (cases "to_date fi (dict_get (data v) ''fecha_finalizacion'')")
      case None
      with True Some show ?thesis by (simp add: validate_fechas_def Let_def)
    next
      case (Some b)
      with assms(2) True obtain d2 where b: "b = PDate d2"
        using to_date_of_date_or_false by blast
      from True \<open>to_date fi (dict_get (data v) ''fecha_inicio'') = Some a\<close> Some a b
      show ?thesis by (simp add: validate_fechas_def Let_def)
    qed
  qed
qed

lemma proyecto_checks_no_raise:
  "text_or_false (dict_get (data v) ''nombre'') \<Longrightarrow> fst (validate_nombre v) = None"
  "text_or_false (dict_get (data v) ''ubicacion'') \<Longrightarrow> fst (validate_ubicacion v) = None"
  "fst (validate_estado_proyecto v) = None"
  "text_or_false (dict_get (data v) ''codigo'') \<Longrightarrow> fst (validate_codigo v) = None"
  by (auto simp: validate_nombre_def validate_ubicacion_def validate_estado_proyecto_def
      validate_codigo_def Let_def dest!: text_or_false_cases)

lemma number_or_none_cases:
  "number_or_none x \<Longrightarrow> x = PNone \<or> (\<exists>r. num_val x = Some r)"
  by (auto simp: number_or_none_def is_number_def)

lemma unidad_checks_no_raise:
  "fst (validate_proyecto v) = None"
  "text_or_false (dict_get (data v) ''numero_unidad'') \<Longrightarrow> fst (validate_numero_unidad v) = None"
  "fst (validate_tipo_unidad v) = None"
  "number_or_none (dict_get (data v) ''metraje_cuadrado'') \<Longrightarrow> fst (validate_metraje v) = None"
  "number_or_none (dict_get (data v) ''precio_venta'') \<Longrightarrow> fst (validate_precio v) = None"
  "fst (validate_estado_unidad v) = None"
  by (auto simp: validate_proyecto_def validate_numero_unidad_def validate_tipo_unidad_def
      validate_metraje_def validate_precio_def validate_estado_unidad_def py_le_zero_def Let_def
      dest!: text_or_false_cases number_or_none_cases)

lemma run_checks_no_raise:
  assumes "\<And>c (w :: validator). c \<in> set cs \<Longrightarrow> data w = data v \<Longrightarrow> fst (c w) = None"
    and "\<And>c (w :: validator). c \<in> set cs \<Longrightarrow> data (snd (c w)) = data w"
  shows "fst (run_checks cs v) = None"
  using assms
proof (induction cs arbitrary: v)
  case Nil
  then show ?case by simp
next
  case (Cons c cs)
  have first: "fst (c v) = None" using Cons.prems(1)[of c v] by simp
  have kept: "data (snd (c v)) = data v" using Cons.prems(2)[of c v] by simp
  have "fst (run_checks cs (snd (c v))) = None"
  proof (rule Cons.IH)
    fix c' and w :: validator assume "c' \<in> set cs" "data w = data (snd (c v))"
    with kept show "fst (c' w) = None" using Cons.prems(1)[of c' w] by simp
  next
    fix c' and w :: validator assume "c' \<in> set cs"
    then show "data (snd (c' w)) = data w" using Cons.prems(2)[of c' w] by simp
  qed
  with first show ?case by (cases "c v") simp
qed

lemma validate_no_raise:
  assumes "well_typed v"
  shows "fst (validate fi v) = None"
proof (cases "kind v")
  case UsuarioValidator
  have "fst (usuario_validate v) = None"
    unfolding usuario_validate_def
  proof (rule run_checks_no_raise)
    fix c and w :: validator
    assume "c \<in> set [validate_rut, validate_email, validate_nombres, validate_password,
                 validate_role, validate_phone]" "data w = data v"
    with assms UsuarioValidator show "fst (c w) = None"
      by (auto simp: well_typed_def usuario_checks_no_raise)
  next
    fix c and w :: validator
    assume "c \<in> set [validate_rut, validate_email, validate_nombres, validate_password,
                 validate_role, validate_phone]"
    then show "data (snd (c w)) = data w" by (auto simp: usuario_checks_keep)
  qed
  with UsuarioValidator show ?thesis by (simp add: validate_def)
next
  case ProyectoValidator
  have "fst (proyecto_validate fi v) = None"
    unfolding proyecto_validate_def
  proof (rule run_checks_no_raise)
    fix c and w :: validator
    assume "c \<in> set [validate_nombre, validate_ubicacion, validate_fechas fi,
                 validate_estado_proyecto, validate_codigo]" "data w = data v"
    with assms ProyectoValidator show "fst (c w) = None"
      by (auto simp: well_typed_def proyecto_checks_no_raise validate_fechas_no_raise)
  next
    fix c and w :: validator
    assume "c \<in> set [validate_nombre, validate_ubicacion, validate_fechas fi,
                 validate_estado_proyecto, validate_codigo]"
    then show "data (snd (c w)) = data w" by (auto simp: proyecto_checks_keep)
  qed
  with ProyectoValidator show ?thesis by (simp add: validate_def)
next
  case UnidadValidator
  have "fst (unidad_validate v) = None"
    unfolding unidad_validate_def
  proof (rule run_checks_no_raise)
    fix c and w :: validator
    assume "c \<in> set [validate_proyecto, validate_numero_unidad, validate_tipo_unidad,
                 validate_metraje, validate_precio, validate_estado_unidad]" "data w = data v"
    with assms UnidadValidator show "fst (c w) = None"
      by (auto simp: well_typed_def unidad_checks_no_raise)
  next
    fix c and w :: validator
    assume "c \<in> set [validate_proyecto, validate_numero_unidad, validate_tipo_unidad,
                 validate_metraje, validate_precio, validate_estado_unidad]"
    then show "data (snd (c w)) = data w" by (auto simp: unidad_checks_keep)
  qed
  with UnidadValidator show ?thesis by (simp add: validate_def)
qed

text \<open>
  Claim C5, amended. When every field that a check measures or matches holds a string or
  a value that is false in a condition, every date field holds such a value or a native
  date, and the floor area and the price are missing, \<^verbatim>\<open>None\<close> or numbers,
  \<^verbatim>\<open>is_valid()\<close> on the user, project and unit validators raises nothing: it returns
  a boolean, false exactly when the checks recorded a field error.
\<close>

theorem is_valid_never_raises_on_typed_input:
  "well_typed v \<Longrightarrow>
     fst (is_valid fi v) = Inr (errors (snd (is_valid fi v)) = [])"
proof -
  assume "well_typed v"
  then have "well_typed (v\<lparr>errors := []\<rparr>)"
    by (cases "kind v") (simp_all add: well_typed_def)
  then have "fst (validate fi (v\<lparr>errors := []\<rparr>)) = None" by (rule validate_no_raise)
  then show ?thesis
    by (cases "validate fi (v\<lparr>errors := []\<rparr>)") (simp add: is_valid_def)
qed

theorem is_valid_never_raises_on_typed_input_witness:
  "well_typed (new_validator UnidadValidator (unidad_data(''precio_venta'' \<mapsto> PInt (- 5))))
   \<and> fst (is_valid date_fromisoformat
          (new_validator UnidadValidator (unidad_data(''precio_venta'' \<mapsto> PInt (- 5)))))
       = Inr (errors (snd (is_valid date_fromisoformat
          (new_validator UnidadValidator (unidad_data(''precio_venta'' \<mapsto> PInt (- 5)))))) = [])
   \<and> map field (errors (snd (is_valid date_fromisoformat
          (new_validator UnidadValidator (unidad_data(''precio_venta'' \<mapsto> PInt (- 5)))))))
       = [''precio_venta'']"
proof -
  have typed: "well_typed (new_validator UnidadValidator
                 (unidad_data(''precio_venta'' \<mapsto> PInt (- 5))))"
    by code_simp
  have recorded: "map field (errors (snd (is_valid date_fromisoformat
          (new_validator UnidadValidator (unidad_data(''precio_venta'' \<mapsto> PInt (- 5)))))))
       = [''precio_venta'']"
    by code_simp
  from is_valid_never_raises_on_typed_input[OF typed, of date_fromisoformat] typed recorded
  show ?thesis by blast
qed

text \<open>
  Claim C5 as stated fails on values of another type: a RUT sent as a number, or a floor
  area sent as a string, makes \<^verbatim>\<open>is_valid()\<close> raise a \<open>TypeError\<close>.
\<close>

theorem is_valid_raises_counterexample:
  "fst (is_valid date_fromisoformat
          (new_validator UsuarioValidator (usuario_data(''rut'' \<mapsto> PInt 12345678))))
     = Inl TypeError
   \<and> fst (is_valid date_fromisoformat
          (new_validator UnidadValidator (unidad_data(''metraje_cuadrado'' \<mapsto> PStr ''80.5''))))
     = Inl TypeError"
  by code_simp

subsection \<open>Project dates\<close>

lemma date_gt_irrefl: "\<not> date_gt d d"
  by (simp add: date_gt_def)

text \<open>
  Claim C7, amended. For a project input whose \<^verbatim>\<open>fecha_inicio\<close> and
  \<^verbatim>\<open>fecha_finalizacion\<close> are both present and not empty, and for any date parser: if
  \<^verbatim>\<open>fecha_inicio\<close> is a string that does not parse, the date check records a format
  error for \<^verbatim>\<open>fecha_inicio\<close> and nothing else; if it is not, and
  \<^verbatim>\<open>fecha_finalizacion\<close> is a string that does not parse, it records a format error for
  \<^verbatim>\<open>fecha_finalizacion\<close>; if both are dates, native or parsed, it records the
  \<^verbatim>\<open>fecha_finalizacion\<close> error exactly when the start is strictly after the completion,
  and a date is not after itself. With 2024-01-01 and 2023-12-31 validation fails with one
  error, on \<^verbatim>\<open>fecha_finalizacion\<close>; with the two dates swapped the input is valid.
\<close>

theorem validate_fechas_rules:
  "(truthy (dict_get (data v) ''fecha_inicio'')
      \<and> truthy (dict_get (data v) ''fecha_finalizacion'') \<longrightarrow>
      (\<forall>s. dict_get (data v) ''fecha_inicio'' = PStr s \<and> fi s = None \<longrightarrow>
           validate_fechas fi v = (None, add_error ''fecha_inicio'' msg_formato_fecha v))
      \<and> (\<forall>t. \<not> (\<exists>s. dict_get (data v) ''fecha_inicio'' = PStr s \<and> fi s = None)
             \<and> dict_get (data v) ''fecha_finalizacion'' = PStr t \<and> fi t = None \<longrightarrow>
           validate_fechas fi v = (None, add_error ''fecha_finalizacion'' msg_formato_fecha v))
      \<and> (\<forall>d1 d2. to_date fi (dict_get (data v) ''fecha_inicio'') = Some (PDate d1)
             \<and> to_date fi (dict_get (data v) ''fecha_finalizacion'') = Some (PDate d2) \<longrightarrow>
           validate_fechas fi v =
             (None, if date_gt d1 d2
                    then add_error ''fecha_finalizacion'' msg_fecha_posterior v else v)))
   \<and> \<not> date_gt d d
   \<and> fst (is_valid date_fromisoformat (new_validator ProyectoValidator proyecto_data))
       = Inr False
   \<and> errors (snd (is_valid date_fromisoformat (new_validator ProyectoValidator proyecto_data)))
       = [ValidationError ''fecha_finalizacion'' msg_fecha_posterior]
   \<and> fst (is_valid date_fromisoformat (new_validator ProyectoValidator
         (proyecto_data(''fecha_inicio'' \<mapsto> PStr ''2023-12-31'',
                        ''fecha_finalizacion'' \<mapsto> PStr ''2024-01-01''))))
       = Inr True"
proof (intro conjI impI allI)
  fix s
  assume "truthy (dict_get (data v) ''fecha_inicio'')
      \<and> truthy (dict_get (data v) ''fecha_finalizacion'')"
    and "dict_get (data v) ''fecha_inicio'' = PStr s \<and> fi s = None"
  then show "validate_fechas fi v = (None, add_error ''fecha_inicio'' msg_formato_fecha v)"
    by (simp add: validate_fechas_def Let_def)
next
  fix t
  assume tr: "truthy (dict_get (data v) ''fecha_inicio'')
      \<and> truthy (dict_get (data v) ''fecha_finalizacion'')"
    and h: "\<not> (\<exists>s. dict_get (data v) ''fecha_inicio'' = PStr s \<and> fi s = None)
             \<and> dict_get (data v) ''fecha_finalizacion'' = PStr t \<and> fi t = None"
  from h have "to_date fi (dict_get (data v) ''fecha_inicio'') \<noteq> None"
    by (cases "dict_get (data v) ''fecha_inicio''") (auto split: option.splits)
  then obtain a where "to_date fi (dict_get (data v) ''fecha_inicio'') = Some a" by auto
  with tr h
  show "validate_fechas fi v = (None, add_error ''fecha_finalizacion'' msg_formato_fecha v)"
    by (simp add: validate_fechas_def Let_def)
next
  fix d1 d2
  assume "truthy (dict_get (data v) ''fecha_inicio'')
      \<and> truthy (dict_get (data v) ''fecha_finalizacion'')"
    and "to_date fi (dict_get (data v) ''fecha_inicio'') = Some (PDate d1)
             \<and> to_date fi (dict_get (data v) ''fecha_finalizacion'') = Some (PDate d2)"
  then show "validate_fechas fi v =
             (None, if date_gt d1 d2
                    then add_error ''fecha_finalizacion'' msg_fecha_posterior v else v)"
    by (simp add: validate_fechas_def Let_def)
next
  show "\<not> date_gt d d" by (rule date_gt_irrefl)
next
  show "fst (is_valid date_fromisoformat (new_validator ProyectoValidator proyecto_data))
       = Inr False"
    by (rule proyecto_data_invalid(1))
next
  show "errors (snd (is_valid date_fromisoformat (new_validator ProyectoValidator proyecto_data)))
       = [ValidationError ''fecha_finalizacion'' msg_fecha_posterior]"
    by (rule proyecto_data_invalid(2))
next
  show "fst (is_valid date_fromisoformat (new_validator ProyectoValidator
         (proyecto_data(''fecha_inicio'' \<mapsto> PStr ''2023-12-31'',
                        ''fecha_finalizacion'' \<mapsto> PStr ''2024-01-01''))))
       = Inr True"
    by code_simp
qed

theorem validate_fechas_rules_witness:
  "truthy (dict_get (data (new_validator ProyectoValidator proyecto_data)) ''fecha_inicio'')
   \<and> truthy (dict_get (data (new_validator ProyectoValidator proyecto_data))
        ''fecha_finalizacion'')
   \<and> to_date date_fromisoformat
        (dict_get (data (new_validator ProyectoValidator proyecto_data)) ''fecha_inicio'')
       = Some (PDate (Date 2024 1 1))
   \<and> to_date date_fromisoformat
        (dict_get (data (new_validator ProyectoValidator proyecto_data)) ''fecha_finalizacion'')
       = Some (PDate (Date 2023 12 31))
   \<and> date_gt (Date 2024 1 1) (Date 2023 12 31)
   \<and> validate_fechas date_fromisoformat (new_validator ProyectoValidator proyecto_data)
       = (None, add_error ''fecha_finalizacion'' msg_fecha_posterior
                  (new_validator ProyectoValidator proyecto_data))
   \<and> dict_get (data (new_validator ProyectoValidator
          (proyecto_data(''fecha_inicio'' \<mapsto> PStr ''2024-13-01'')))) ''fecha_inicio''
       = PStr ''2024-13-01''
   \<and> date_fromisoformat ''2024-13-01'' = None
   \<and> validate_fechas date_fromisoformat
        (new_validator ProyectoValidator (proyecto_data(''fecha_inicio'' \<mapsto> PStr ''2024-13-01'')))
       = (None, add_error ''fecha_inicio'' msg_formato_fecha
           (new_validator ProyectoValidator
              (proyecto_data(''fecha_inicio'' \<mapsto> PStr ''2024-13-01''))))"
proof -
  define good where "good = new_validator ProyectoValidator proyecto_data"
  define bad where
    "bad = new_validator ProyectoValidator (proyecto_data(''fecha_inicio'' \<mapsto> PStr ''2024-13-01''))"
  have t: "truthy (dict_get (data good) ''fecha_inicio'')"
    "truthy (dict_get (data good) ''fecha_finalizacion'')"
    "truthy (dict_get (data bad) ''fecha_inicio'')"
    "truthy (dict_get (data bad) ''fecha_finalizacion'')"
    unfolding good_def bad_def by code_simp+
  have p: "to_date date_fromisoformat (dict_get (data good) ''fecha_inicio'')
             = Some (PDate (Date 2024 1 1))"
    "to_date date_fromisoformat (dict_get (data good) ''fecha_finalizacion'')
             = Some (PDate (Date 2023 12 31))"
    unfolding good_def by code_simp+
  have later: "date_gt (Date 2024 1 1) (Date 2023 12 31)" by code_simp
  have q: "dict_get (data bad) ''fecha_inicio'' = PStr ''2024-13-01''"
    "date_fromisoformat ''2024-13-01'' = None"
    unfolding bad_def by code_simp+
  from validate_fechas_rules[of good date_fromisoformat] t(1,2) p
  have "validate_fechas date_fromisoformat good =
          (None, if date_gt (Date 2024 1 1) (Date 2023 12 31)
                 then add_error ''fecha_finalizacion'' msg_fecha_posterior good else good)"
    by blast
  with later have a: "validate_fechas date_fromisoformat good =
          (None, add_error ''fecha_finalizacion'' msg_fecha_posterior good)"
    by simp
  from validate_fechas_rules[of bad date_fromisoformat] t(3,4) q
  have b: "validate_fechas date_fromisoformat bad =
          (None, add_error ''fecha_inicio'' msg_formato_fecha bad)"
    by blast
  from t(1,2) p later a q b show ?thesis
    unfolding good_def bad_def by blast
qed

text \<open>
  Claim C7 as stated fails when both dates are strings that do not parse: the check
  returns after the error on \<^verbatim>\<open>fecha_inicio\<close> and records none for
  \<^verbatim>\<open>fecha_finalizacion\<close>.
\<close>

theorem second_unparsable_date_counterexample:
  "date_fromisoformat ''2024-13-01'' = None \<and> date_fromisoformat ''31/12/2023'' = None
   \<and> map field (errors (snd (is_valid date_fromisoformat
        (new_validator ProyectoValidator
           (proyecto_data(''fecha_inicio'' \<mapsto> PStr ''2024-13-01'',
                          ''fecha_finalizacion'' \<mapsto> PStr ''31/12/2023''))))))
       = [''fecha_inicio'']"
  by code_simp

subsection \<open>The matcher and the format of the RUT\<close>

lemma nullable_lang: "nullable r \<longleftrightarrow> [] \<in> lang r"
  by (induction r) (auto simp: lang_conc_def intro: lang_star.star_empty)

lemma cons_in_conc:
  "c # w \<in> lang_conc A B \<longleftrightarrow>
     ([] \<in> A \<and> c # w \<in> B) \<or> (\<exists>u v. w = u @ v \<and> c # u \<in> A \<and> v \<in> B)"
  by (auto simp: lang_conc_def Cons_eq_append_conv)

lemma cons_in_star_D:
  "x \<in> lang_star A \<Longrightarrow> x = c # w \<Longrightarrow> \<exists>u v. w = u @ v \<and> c # u \<in> A \<and> v \<in> lang_star A"
proof (induction arbitrary: rule: lang_star.induct)
  case star_empty
  then show ?case by simp
next
  case (star_more u v)
  show ?case
  proof (cases u)
    case Nil
    with star_more show ?thesis by simp
  next
    case (Cons a u')
    with star_more.prems star_more.hyps show ?thesis by auto
  qed
qed

lemma cons_in_star:
  "c # w \<in> lang_star A \<longleftrightarrow> (\<exists>u v. w = u @ v \<and> c # u \<in> A \<and> v \<in> lang_star A)"
proof
  assume "c # w \<in> lang_star A"
  then show "\<exists>u v. w = u @ v \<and> c # u \<in> A \<and> v \<in> lang_star A"
    by (rule cons_in_star_D) simp
next
  assume "\<exists>u v. w = u @ v \<and> c # u \<in> A \<and> v \<in> lang_star A"
  then obtain u v where "w = u @ v" "c # u \<in> A" "v \<in> lang_star A" by blast
  then show "c # w \<in> lang_star A"
    using lang_star.star_more[of "c # u" A v] by simp
qed

lemma deriv_lang: "w \<in> lang (deriv c r) \<longleftrightarrow> c # w \<in> lang r"
proof (induction r arbitrary: w)
  case (Seq r1 r2)
  then show ?case
    by (auto simp: cons_in_conc nullable_lang) (auto simp: lang_conc_def)
next
  case (Star r)
  then show ?case
    by (auto simp: cons_in_star) (auto simp: lang_conc_def)
qed auto

lemma fold_deriv_lang: "[] \<in> lang (fold deriv s r) \<longleftrightarrow> s \<in> lang r"
  by (induction s arbitrary: r) (simp_all add: deriv_lang)

text \<open>The matcher decides the language of the pattern.\<close>

lemma matches_lang: "matches r s \<longleftrightarrow> s \<in> lang r"
  by (simp add: matches_def nullable_lang fold_deriv_lang)

lemma cls_conc:
  "w \<in> lang_conc (lang (Cls cs)) X \<longleftrightarrow> (\<exists>c v. w = c # v \<and> c \<in> set cs \<and> v \<in> X)"
proof
  assume "w \<in> lang_conc (lang (Cls cs)) X"
  then show "\<exists>c v. w = c # v \<and> c \<in> set cs \<and> v \<in> X"
    by (auto simp: lang_conc_def)
next
  assume "\<exists>c v. w = c # v \<and> c \<in> set cs \<and> v \<in> X"
  then obtain c v where "w = [c] @ v" "c \<in> set cs" "v \<in> X" by auto
  then show "w \<in> lang_conc (lang (Cls cs)) X"
    unfolding lang_conc_def lang.simps by blast
qed

lemma lang_dollar: "lang dollar = {[], [CHR 0x0A]}"
  by (auto simp: dollar_def)

lemma lang_rep_exactly_cls:
  "lang (rep_exactly n (Cls cs)) = {w. length w = n \<and> set w \<subseteq> set cs}"
proof (induction n)
  case 0
  then show ?case by auto
next
  case (Suc n)
  show ?case
  proof (rule set_eqI)
    fix w
    show "w \<in> lang (rep_exactly (Suc n) (Cls cs))
            \<longleftrightarrow> w \<in> {w. length w = Suc n \<and> set w \<subseteq> set cs}"
      by (cases w) (auto simp: Suc.IH cls_conc simp del: lang.simps(3))
  qed
qed

lemma lang_rep_upto_cls:
  "lang (rep_upto n (Cls cs)) = {w. length w \<le> n \<and> set w \<subseteq> set cs}"
proof (induction n)
  case 0
  then show ?case by auto
next
  case (Suc n)
  show ?case
  proof (rule set_eqI)
    fix w
    show "w \<in> lang (rep_upto (Suc n) (Cls cs))
            \<longleftrightarrow> w \<in> {w. length w \<le> Suc n \<and> set w \<subseteq> set cs}"
      by (cases w) (auto simp: Suc.IH cls_conc simp del: lang.simps(3))
  qed
qed

lemma lang_rep_between_cls:
  assumes "n \<le> m"
  shows "lang (rep_between n m (Cls cs)) = {w. n \<le> length w \<and> length w \<le> m \<and> set w \<subseteq> set cs}"
proof (rule set_eqI)
  fix w
  show "w \<in> lang (rep_between n m (Cls cs))
          \<longleftrightarrow> w \<in> {w. n \<le> length w \<and> length w \<le> m \<and> set w \<subseteq> set cs}"
  proof
    assume "w \<in> lang (rep_between n m (Cls cs))"
    then obtain u v where "w = u @ v" "length u = n" "set u \<subseteq> set cs"
      "length v \<le> m - n" "set v \<subseteq> set cs"
      by (auto simp: rep_between_def lang_conc_def lang_rep_exactly_cls lang_rep_upto_cls)
    with assms show "w \<in> {w. n \<le> length w \<and> length w \<le> m \<and> set w \<subseteq> set cs}"
      by auto
  next
    assume w: "w \<in> {w. n \<le> length w \<and> length w \<le> m \<and> set w \<subseteq> set cs}"
    have "w = take n w @ drop n w" by simp
    moreover have "length (take n w) = n" using w by simp
    moreover have "set (take n w) \<subseteq> set cs" using w set_take_subset[of n w] by auto
    moreover have "length (drop n w) \<le> m - n" using w by auto
    moreover have "set (drop n w) \<subseteq> set cs" using w set_drop_subset[of n w] by auto
    ultimately show "w \<in> lang (rep_between n m (Cls cs))"
      unfolding rep_between_def lang.simps lang_conc_def lang_rep_exactly_cls lang_rep_upto_cls
      by blast
  qed
qed

lemma lang_check_shape:
  "s \<in> lang (Seq (rep_between 1 8 (Cls D)) (Seq (Cls H) (Seq (Cls C) dollar))) \<longleftrightarrow>
     (\<exists>ds h c e. s = ds @ [h, c] @ e \<and> 1 \<le> length ds \<and> length ds \<le> 8
        \<and> set ds \<subseteq> set D \<and> h \<in> set H \<and> c \<in> set C \<and> (e = [] \<or> e = [CHR 0x0A]))"
proof -
  have between: "lang (rep_between 1 8 (Cls D))
                   = {w. 1 \<le> length w \<and> length w \<le> 8 \<and> set w \<subseteq> set D}"
    by (rule lang_rep_between_cls) simp
  have tail: "t \<in> lang (Seq (Cls H) (Seq (Cls C) dollar)) \<longleftrightarrow>
                (\<exists>h c e. t = [h, c] @ e \<and> h \<in> set H \<and> c \<in> set C \<and> (e = [] \<or> e = [CHR 0x0A]))"
    for t
    unfolding lang.simps(4) cls_conc lang_dollar by auto
  show ?thesis
  proof
    assume "s \<in> lang (Seq (rep_between 1 8 (Cls D)) (Seq (Cls H) (Seq (Cls C) dollar)))"
    then obtain ds t where "s = ds @ t" "ds \<in> lang (rep_between 1 8 (Cls D))"
      "t \<in> lang (Seq (Cls H) (Seq (Cls C) dollar))"
      unfolding lang.simps(4)[of "rep_between 1 8 (Cls D)"] lang_conc_def by blast
    then show "\<exists>ds h c e. s = ds @ [h, c] @ e \<and> 1 \<le> length ds \<and> length ds \<le> 8
        \<and> set ds \<subseteq> set D \<and> h \<in> set H \<and> c \<in> set C \<and> (e = [] \<or> e = [CHR 0x0A])"
      unfolding between tail by blast
  next
    assume "\<exists>ds h c e. s = ds @ [h, c] @ e \<and> 1 \<le> length ds \<and> length ds \<le> 8
        \<and> set ds \<subseteq> set D \<and> h \<in> set H \<and> c \<in> set C \<and> (e = [] \<or> e = [CHR 0x0A])"
    then obtain ds h c e where p: "s = ds @ [h, c] @ e" "1 \<le> length ds" "length ds \<le> 8"
      "set ds \<subseteq> set D" "h \<in> set H" "c \<in> set C" "e = [] \<or> e = [CHR 0x0A]"
      by blast
    then have "ds \<in> lang (rep_between 1 8 (Cls D))" unfolding between by simp
    moreover from p have "[h, c] @ e \<in> lang (Seq (Cls H) (Seq (Cls C) dollar))"
      unfolding tail by blast
    ultimately show "s \<in> lang (Seq (rep_between 1 8 (Cls D)) (Seq (Cls H) (Seq (Cls C) dollar)))"
      unfolding lang.simps(4)[of "rep_between 1 8 (Cls D)"] lang_conc_def p(1) by blast
  qed
qed

lemma lang_rut_pattern:
  "s \<in> lang rut_pattern \<longleftrightarrow>
     (\<exists>ds c e. s = ds @ [CHR ''-'', c] @ e \<and> 1 \<le> length ds \<and> length ds \<le> 8
        \<and> set ds \<subseteq> set digits \<and> c \<in> set (digits @ ''kK'') \<and> (e = [] \<or> e = [CHR 0x0A]))"
  unfolding rut_pattern_def lang_check_shape by simp

lemma rut_shape_iff:
  "rut_shape s \<longleftrightarrow>
     (\<exists>ds c. s = ds @ [CHR ''-'', c] \<and> 1 \<le> length ds \<and> length ds \<le> 8
        \<and> set ds \<subseteq> set digits \<and> c \<in> set (digits @ ''kK''))"
proof
  assume shape: "rut_shape s"
  then obtain c h r where r: "rev s = c # h # r"
    by (auto simp: rut_shape_def split: list.splits)
  then have s: "s = rev r @ [h, c]"
    by (metis rev_rev_ident rev.simps(2) append.assoc append_Cons append_Nil)
  from shape r have "c \<in> set (digits @ ''kK'')" "h = CHR ''-''" "1 \<le> length r" "length r \<le> 8"
    "list_all (\<lambda>d. d \<in> set digits) r"
    by (simp_all add: rut_shape_def)
  with s show "\<exists>ds c. s = ds @ [CHR ''-'', c] \<and> 1 \<le> length ds \<and> length ds \<le> 8
        \<and> set ds \<subseteq> set digits \<and> c \<in> set (digits @ ''kK'')"
    by (intro exI[of _ "rev r"] exI[of _ c]) (auto simp: list_all_iff)
next
  assume "\<exists>ds c. s = ds @ [CHR ''-'', c] \<and> 1 \<le> length ds \<and> length ds \<le> 8
        \<and> set ds \<subseteq> set digits \<and> c \<in> set (digits @ ''kK'')"
  then obtain ds c where "s = ds @ [CHR ''-'', c]" "1 \<le> length ds" "length ds \<le> 8"
    "set ds \<subseteq> set digits" "c \<in> set (digits @ ''kK'')"
    by blast
  then show "rut_shape s"
    by (auto simp: rut_shape_def list_all_iff)
qed

text \<open>
  What the format check of the RUT accepts, for every string: the strings of the shape,
  and the strings of the shape followed by one newline.
\<close>

lemma rut_format_characterised:
  "is_valid_rut_format (PStr s)
     = Inr (rut_shape s \<or> (\<exists>t. s = t @ [CHR 0x0A] \<and> rut_shape t))"
proof -
  have "s \<in> lang rut_pattern \<longleftrightarrow> rut_shape s \<or> (\<exists>t. s = t @ [CHR 0x0A] \<and> rut_shape t)"
  proof
    assume "s \<in> lang rut_pattern"
    then obtain ds c e where p: "s = ds @ [CHR ''-'', c] @ e" "1 \<le> length ds" "length ds \<le> 8"
      "set ds \<subseteq> set digits" "c \<in> set (digits @ ''kK'')" "e = [] \<or> e = [CHR 0x0A]"
      unfolding lang_rut_pattern by blast
    then have "rut_shape (ds @ [CHR ''-'', c])" unfolding rut_shape_iff by blast
    with p(1,6) show "rut_shape s \<or> (\<exists>t. s = t @ [CHR 0x0A] \<and> rut_shape t)"
      by auto
  next
    assume "rut_shape s \<or> (\<exists>t. s = t @ [CHR 0x0A] \<and> rut_shape t)"
    then show "s \<in> lang rut_pattern"
    proof
      assume "rut_shape s"
      then show ?thesis unfolding rut_shape_iff lang_rut_pattern by force
    next
      assume "\<exists>t. s = t @ [CHR 0x0A] \<and> rut_shape t"
      then show ?thesis unfolding rut_shape_iff lang_rut_pattern by force
    qed
  qed
  then show ?thesis by (simp add: is_valid_rut_format_def matches_lang)
qed

text \<open>
  What \<^verbatim>\<open>_validate_rut\<close> records: the required error for a RUT that is missing or
  false in a condition; for a string that is not empty, the format error unless the string
  has the shape, with or without one newline after it.
\<close>

lemma validate_rut_characterised:
  "(\<not> truthy (dict_get (data v) ''rut'') \<longrightarrow>
      validate_rut v = (None, add_error ''rut'' ''El RUT es obligatorio'' v))
   \<and> (\<forall>s. dict_get (data v) ''rut'' = PStr s \<and> s \<noteq> [] \<longrightarrow>
        validate_rut v =
          (None, if rut_shape s \<or> (\<exists>t. s = t @ [CHR 0x0A] \<and> rut_shape t) then v
                 else add_error ''rut''
                   (''El formato del RUT no es v'' @ a_acute # ''lido (debe ser 12345678-9)'') v))"
  by (auto simp: validate_rut_def Let_def rut_format_characterised)

lemma rut_examples:
  "rut_shape ''12345678-9''"
  "errors (snd (validate_rut (new_validator UsuarioValidator usuario_data))) = []"
  "\<not> rut_shape ''123456789''"
  "map field (errors (snd (validate_rut
      (new_validator UsuarioValidator (usuario_data(''rut'' \<mapsto> PStr ''123456789''))))))
     = [''rut'']"
  "errors (snd (validate_rut (new_validator UsuarioValidator (usuario_data(''rut'' := None)))))
     = [ValidationError ''rut'' ''El RUT es obligatorio'']"
  by code_simp+

text \<open>
  Claim C8. The claim says that a RUT that is present gets a format error exactly when
  the string is not one to eight digits, a hyphen and one check character, from its first
  to its last character. The code accepts more: \<^verbatim>\<open>$\<close> also matches before a final
  newline, so the RUT \<^verbatim>\<open>12345678-9\<close> followed by a newline, which does not have the shape,
  passes \<^verbatim>\<open>_is_valid_rut_format\<close>, gets no error from \<^verbatim>\<open>_validate_rut\<close>, and the
  input is valid.
\<close>

theorem rut_trailing_newline_accepted:
  "\<not> rut_shape (''12345678-9'' @ [CHR 0x0A])
   \<and> is_valid_rut_format (PStr (''12345678-9'' @ [CHR 0x0A])) = Inr True
   \<and> errors (snd (validate_rut (new_validator UsuarioValidator
        (usuario_data(''rut'' \<mapsto> PStr (''12345678-9'' @ [CHR 0x0A])))))) = []
   \<and> fst (is_valid date_fromisoformat (new_validator UsuarioValidator
        (usuario_data(''rut'' \<mapsto> PStr (''12345678-9'' @ [CHR 0x0A]))))) = Inr True"
  by code_simp


end
